theory Spec2Isabelle
  imports Complex_Main "HOL-Library.AList" "HOL-Library.Char_ord" "HOL-Library.List_Lexorder"
    "HOL-Library.Option_ord" "HOL-Library.Product_Lexorder" "HOL-Library.Multiset"
begin

section \<open>BudgetWise: the data access layer and the auth/crypto layer\<close>

text \<open>
  A shallow embedding of \<^verbatim>\<open>src/services/DatabaseService.js\<close> and
  \<^verbatim>\<open>src/services/AuthService.js\<close>. Every method of the two services is an
  \<^verbatim>\<open>async\<close> function over mutable fields and an outside store, with
  \<^verbatim>\<open>try\<close>/\<^verbatim>\<open>catch\<close> around its body. A method is therefore a function
  from the state (the fields of the service together with the store it talks to) to a
  result and the state after it, where the result is either a thrown error (\<open>Inl\<close>) or
  the returned value (\<open>Inr\<close>).
\<close>

subsection \<open>Errors, asynchronous computations, try and catch\<close>

datatype error = TypeError string | RangeError string | SyntaxError string | Error string

fun message :: "error \<Rightarrow> string" where
  "message (TypeError m) = m"
| "message (RangeError m) = m"
| "message (SyntaxError m) = m"
| "message (Error m) = m"

type_synonym ('s, 'a) io = "'s \<Rightarrow> (error + 'a) \<times> 's"

definition return_io :: "'a \<Rightarrow> ('s, 'a) io" where
  "return_io x = (\<lambda>s. (Inr x, s))"

definition throw_io :: "error \<Rightarrow> ('s, 'a) io" where
  "throw_io e = (\<lambda>s. (Inl e, s))"

text \<open>A value or an exception of a pure library call, inside a computation.\<close>

definition lift_io :: "error + 'a \<Rightarrow> ('s, 'a) io" where
  "lift_io r = (\<lambda>s. (r, s))"

text \<open>\<^verbatim>\<open>x = await m; f(x)\<close>: an exception of \<open>m\<close> skips \<open>f\<close>.\<close>

definition and_then :: "('s, 'a) io \<Rightarrow> ('a \<Rightarrow> ('s, 'b) io) \<Rightarrow> ('s, 'b) io" where
  "and_then m f = (\<lambda>s. case m s of (Inl e, s') \<Rightarrow> (Inl e, s') | (Inr x, s') \<Rightarrow> f x s')"

text \<open>\<^verbatim>\<open>try { m } catch (error) { h(error) }\<close>: the handler runs in the state the
  body left behind.\<close>

definition try_catch :: "('s, 'a) io \<Rightarrow> (error \<Rightarrow> ('s, 'a) io) \<Rightarrow> ('s, 'a) io" where
  "try_catch m h = (\<lambda>s. case m s of (Inl e, s') \<Rightarrow> h e s' | (Inr x, s') \<Rightarrow> (Inr x, s'))"

text \<open>A \<^verbatim>\<open>for\<close> loop whose body may throw: the first exception ends it.\<close>

fun for_each :: "('a \<Rightarrow> ('s, unit) io) \<Rightarrow> 'a list \<Rightarrow> ('s, unit) io" where
  "for_each f [] = return_io ()"
| "for_each f (x # xs) = and_then (f x) (\<lambda>_. for_each f xs)"

fun traverse :: "('a \<Rightarrow> error + 'b) \<Rightarrow> 'a list \<Rightarrow> error + 'b list" where
  "traverse f [] = Inr []"
| "traverse f (x # xs) =
     (case f x of
        Inl e \<Rightarrow> Inl e
      | Inr y \<Rightarrow> (case traverse f xs of Inl e \<Rightarrow> Inl e | Inr ys \<Rightarrow> Inr (y # ys)))"

text \<open>A state change that cannot fail, and the same sequencing for pure calls.\<close>

definition modify :: "('s \<Rightarrow> 's) \<Rightarrow> ('s, unit) io" where
  "modify f = (\<lambda>s. (Inr (), f s))"

fun chain :: "error + 'a \<Rightarrow> ('a \<Rightarrow> error + 'b) \<Rightarrow> error + 'b" where
  "chain (Inl e) f = Inl e"
| "chain (Inr x) f = f x"

text \<open>A computation that never throws, whatever the state.\<close>

definition no_throw :: "('s, 'a) io \<Rightarrow> bool" where
  "no_throw m = (\<forall>s. \<exists>x s'. m s = (Inr x, s'))"

subsection \<open>Values of the JavaScript side\<close>

text \<open>What \<^verbatim>\<open>JSON.parse\<close> returns and \<^verbatim>\<open>JSON.stringify\<close> accepts without
  loss: the serializable values.\<close>

datatype json =
    JNull
  | JBool bool
  | JNumber real
  | JString string
  | JArray "json list"
  | JObject "(string \<times> json) list"

text \<open>
  A number of the JavaScript side and of a REAL column: an IEEE double. It is the real
  number it stands for, or one of the three special values. Which reals are doubles,
  and what an addition of doubles rounds to, is not part of the model: the only
  arithmetic the services have done on amounts is the \<^verbatim>\<open>SUM\<close> of the store, which is
  taken as given below.
\<close>

datatype double = Finite real | PlusInfinity | MinusInfinity | NaN

text \<open>A \<^verbatim>\<open>Date\<close>: \<^verbatim>\<open>toISOString()\<close> throws a RangeError on an invalid one.\<close>

datatype js_date = ValidDate string | InvalidDate

fun toISOString :: "js_date \<Rightarrow> error + string" where
  "toISOString (ValidDate str) = Inr str"
| "toISOString InvalidDate = Inl (RangeError ''Invalid time value'')"

text \<open>Decimal rendering of a number, as string concatenation does it.\<close>

fun digits10 :: "nat \<Rightarrow> string" where
  "digits10 n = (if n < 10 then [''0123456789'' ! n]
                 else digits10 (n div 10) @ [''0123456789'' ! (n mod 10)])"

declare digits10.simps [simp del]

definition number_toString :: "int \<Rightarrow> string" where
  "number_toString i = (if i < 0 then CHR ''-'' # digits10 (nat (- i)) else digits10 (nat i))"

text \<open>Truthiness of a string that may be \<^verbatim>\<open>null\<close> or \<^verbatim>\<open>undefined\<close>: only a
  non-empty string is truthy.\<close>

fun truthy :: "string option \<Rightarrow> bool" where
  "truthy None = False"
| "truthy (Some s) = (s \<noteq> [])"

text \<open>\<^verbatim>\<open>x || d\<close> on such a string.\<close>

fun or_else :: "string option \<Rightarrow> string \<Rightarrow> string" where
  "or_else None d = d"
| "or_else (Some s) d = (if s = [] then d else s)"

text \<open>\<^verbatim>\<open>Boolean(n)\<close> on a number that may be \<^verbatim>\<open>null\<close>.\<close>

fun Boolean :: "int option \<Rightarrow> bool" where
  "Boolean None = False"
| "Boolean (Some n) = (n \<noteq> 0)"

subsection \<open>Transactions\<close>

text \<open>
  One shape, three stages. A row of the \<^verbatim>\<open>transactions\<close> table holds the dates as
  ISO text, \<^verbatim>\<open>tags\<close> and \<^verbatim>\<open>recurringPattern\<close> as nullable JSON text and
  \<^verbatim>\<open>recurring\<close> as a nullable integer. The object \<^verbatim>\<open>getTransactions\<close> hands to
  \<^verbatim>\<open>Transaction.fromJSON\<close> has the two JSON columns parsed and \<^verbatim>\<open>recurring\<close> as a
  boolean. A \<^verbatim>\<open>Transaction\<close> instance has \<^verbatim>\<open>Date\<close> objects where the row has text.
  The columns that the schema leaves nullable are options.
\<close>

record ('d, 'j, 'b) txn =
  txn_id :: string
  amount :: double
  txn_type :: string
  category :: "string option"
  subcategory :: "string option"
  description :: "string option"
  date :: 'd
  account :: "string option"
  currency :: "string option"
  tags :: 'j
  location :: "string option"
  receipt :: "string option"
  recurring :: 'b
  recurringPattern :: 'j
  createdAt :: 'd
  updatedAt :: 'd

type_synonym transaction_row = "(string, string option, int option) txn"
type_synonym transaction_object = "(string, json, bool) txn"
type_synonym transaction = "(js_date, json, bool) txn"

subsection \<open>Libraries the services call\<close>

text \<open>
  crypto-js, the JSON built-ins and the date functions are not code of this repository;
  the model takes them as given functions. A call that can throw returns a sum.
  \<^item> \<open>sha256 p\<close> is \<^verbatim>\<open>CryptoJS.SHA256(p).toString()\<close>;
  \<^item> \<open>aes_encrypt m k\<close> is \<^verbatim>\<open>CryptoJS.AES.encrypt(m, k).toString()\<close>;
  \<^item> \<open>aes_decrypt c k\<close> is \<^verbatim>\<open>CryptoJS.AES.decrypt(c, k)\<close>, a word array;
  \<^item> \<open>utf8_toString b\<close> is \<^verbatim>\<open>b.toString(CryptoJS.enc.Utf8)\<close>;
  \<^item> \<open>date_toISOString ms\<close> is \<^verbatim>\<open>new Date(ms).toISOString()\<close>;
  \<^item> \<open>months_before ms n\<close> is the date \<^verbatim>\<open>d\<close> after
    \<^verbatim>\<open>d = new Date(ms); d.setMonth(d.getMonth() - n)\<close>;
  \<^item> \<open>strftime_Ym\<close> is SQLite's \<^verbatim>\<open>strftime('%Y-%m', _)\<close>;
  \<^item> \<open>sqlite_SUM\<close> is SQLite's \<^verbatim>\<open>SUM\<close> over the values of a group, in the order of
    the rows: a floating-point sum;
  \<^item> \<open>null_read_error p\<close> is the error the JavaScript engine throws when the property
    \<open>p\<close> is read from \<^verbatim>\<open>null\<close>: a TypeError whose message depends on the engine.

  \<^verbatim>\<open>models/Transaction.js\<close> is code of the repository that is not among the sources:
  \<open>new_Transaction\<close> stands for its constructor on plain data and
  \<open>Transaction_fromJSON\<close> for its static \<^verbatim>\<open>fromJSON\<close>; both are parameters too.
\<close>

record libs =
  sha256 :: "string \<Rightarrow> string"
  aes_encrypt :: "string \<Rightarrow> string \<Rightarrow> error + string"
  aes_decrypt :: "string \<Rightarrow> string \<Rightarrow> error + string"
  utf8_toString :: "string \<Rightarrow> error + string"
  json_stringify :: "json \<Rightarrow> string"
  json_parse :: "string \<Rightarrow> error + json"
  date_toISOString :: "int \<Rightarrow> string"
  months_before :: "int \<Rightarrow> int \<Rightarrow> js_date"
  strftime_Ym :: "string \<Rightarrow> string option"
  sqlite_SUM :: "double list \<Rightarrow> double"
  null_read_error :: "string \<Rightarrow> error"
  new_Transaction :: "json \<Rightarrow> error + transaction"
  Transaction_fromJSON :: "transaction_object \<Rightarrow> error + transaction"

section \<open>The relational store\<close>

text \<open>
  The schema of \<^verbatim>\<open>createTables\<close>. A table that has not been created is \<open>None\<close>;
  the rows of a table are kept in insertion order.
\<close>

record category_row =
  cat_id :: string
  cat_name :: string
  cat_type :: string
  cat_color :: "string option"
  cat_icon :: "string option"
  cat_parentId :: "string option"
  cat_isActive :: "int option"
  cat_createdAt :: string
  cat_updatedAt :: string

record setting_row =
  setting_key :: string
  setting_value :: string
  setting_updatedAt :: string

record budget_row =
  budget_id :: string
  budget_name :: string
  budget_category :: "string option"
  budget_amount :: double
  budget_spent :: "double option"
  budget_period :: "string option"
  budget_startDate :: string
  budget_endDate :: string
  budget_currency :: "string option"
  budget_color :: "string option"
  budget_icon :: "string option"
  budget_notifications :: "int option"
  budget_warningThreshold :: "double option"
  budget_isActive :: "int option"
  budget_createdAt :: string
  budget_updatedAt :: string

record database =
  transactions :: "transaction_row list option"
  budgets :: "budget_row list option"
  categories :: "category_row list option"
  settings :: "setting_row list option"

text \<open>
  A statement with its parameters bound is what it does to the database: an error, or
  its rows together with the database after it. Each statement below is one SQL text of
  \<^verbatim>\<open>DatabaseService.js\<close>, named after it.
\<close>

type_synonym 'a sql = "database \<Rightarrow> error + 'a \<times> database"

definition table :: "string \<Rightarrow> 'a list option \<Rightarrow> error + 'a list" where
  "table name t = (case t of None \<Rightarrow> Inl (Error (''no such table: '' @ name)) | Some rows \<Rightarrow> Inr rows)"

definition if_not_exists :: "'a list option \<Rightarrow> 'a list option" where
  "if_not_exists t = (case t of None \<Rightarrow> Some [] | Some rows \<Rightarrow> Some rows)"

definition CREATE_TABLE_IF_NOT_EXISTS_transactions :: "unit sql" where
  "CREATE_TABLE_IF_NOT_EXISTS_transactions db =
     Inr ((), db\<lparr>transactions := if_not_exists (transactions db)\<rparr>)"

definition CREATE_TABLE_IF_NOT_EXISTS_budgets :: "unit sql" where
  "CREATE_TABLE_IF_NOT_EXISTS_budgets db =
     Inr ((), db\<lparr>budgets := if_not_exists (budgets db)\<rparr>)"

definition CREATE_TABLE_IF_NOT_EXISTS_categories :: "unit sql" where
  "CREATE_TABLE_IF_NOT_EXISTS_categories db =
     Inr ((), db\<lparr>categories := if_not_exists (categories db)\<rparr>)"

definition CREATE_TABLE_IF_NOT_EXISTS_settings :: "unit sql" where
  "CREATE_TABLE_IF_NOT_EXISTS_settings db =
     Inr ((), db\<lparr>settings := if_not_exists (settings db)\<rparr>)"

text \<open>\<^verbatim>\<open>INSERT OR IGNORE\<close>: a row whose primary key is already in the table is
  dropped without an error. The primary key of \<^verbatim>\<open>categories\<close> is \<^verbatim>\<open>id\<close>, that of
  \<^verbatim>\<open>settings\<close> is \<^verbatim>\<open>key\<close>.\<close>

definition INSERT_OR_IGNORE_INTO_categories :: "category_row \<Rightarrow> unit sql" where
  "INSERT_OR_IGNORE_INTO_categories row db =
     chain (table ''categories'' (categories db)) (\<lambda>rows.
       Inr ((), if cat_id row \<in> set (map cat_id rows) then db
                else db\<lparr>categories := Some (rows @ [row])\<rparr>))"

definition INSERT_OR_IGNORE_INTO_settings :: "setting_row \<Rightarrow> unit sql" where
  "INSERT_OR_IGNORE_INTO_settings row db =
     chain (table ''settings'' (settings db)) (\<lambda>rows.
       Inr ((), if setting_key row \<in> set (map setting_key rows) then db
                else db\<lparr>settings := Some (rows @ [row])\<rparr>))"

text \<open>\<^verbatim>\<open>INSERT OR REPLACE\<close>: the rows with the same primary key are deleted, then the
  new row is inserted.\<close>

definition INSERT_OR_REPLACE_INTO_settings :: "setting_row \<Rightarrow> unit sql" where
  "INSERT_OR_REPLACE_INTO_settings row db =
     chain (table ''settings'' (settings db)) (\<lambda>rows.
       Inr ((), db\<lparr>settings :=
                  Some (filter (\<lambda>r. setting_key r \<noteq> setting_key row) rows @ [row])\<rparr>))"

text \<open>A plain \<^verbatim>\<open>INSERT\<close> fails on a primary key that is already there.\<close>

definition INSERT_INTO_transactions :: "transaction_row \<Rightarrow> unit sql" where
  "INSERT_INTO_transactions row db =
     chain (table ''transactions'' (transactions db)) (\<lambda>rows.
       if txn_id row \<in> set (map txn_id rows)
       then Inl (Error ''UNIQUE constraint failed: transactions.id'')
       else Inr ((), db\<lparr>transactions := Some (rows @ [row])\<rparr>))"

text \<open>
  \<^verbatim>\<open>ORDER BY k DESC\<close>. SQL leaves the order of rows with equal keys open; here they
  keep the order they had. \<^verbatim>\<open>LIMIT l OFFSET o\<close>: a negative limit is no limit, a
  negative offset is none.
\<close>

fun insert_desc :: "('a \<Rightarrow> 'k::linorder) \<Rightarrow> 'a \<Rightarrow> 'a list \<Rightarrow> 'a list" where
  "insert_desc key r [] = [r]"
| "insert_desc key r (x # xs) =
     (if key x \<le> key r then r # x # xs else x # insert_desc key r xs)"

definition ORDER_BY_DESC :: "('a \<Rightarrow> 'k::linorder) \<Rightarrow> 'a list \<Rightarrow> 'a list" where
  "ORDER_BY_DESC key rows = foldr (insert_desc key) rows []"

definition LIMIT_OFFSET :: "int \<Rightarrow> int \<Rightarrow> 'a list \<Rightarrow> 'a list" where
  "LIMIT_OFFSET limit offset rows =
     (let rest = drop (nat offset) rows in if limit < 0 then rest else take (nat limit) rest)"

text \<open>\<^verbatim>\<open>GROUP BY k\<close>: one group for each value of the key. SQLite sorts the rows by the
  key to form the groups, so the groups come out in ascending order of the key:
  \<^verbatim>\<open>NULL\<close> first, text byte by byte, a pair of keys by its first component and then its
  second. The rows of a group keep the order of the table.\<close>

definition GROUP_BY :: "('a \<Rightarrow> 'k::linorder) \<Rightarrow> 'a list \<Rightarrow> ('k \<times> 'a list) list" where
  "GROUP_BY key rows =
     map (\<lambda>k. (k, filter (\<lambda>r. key r = k) rows)) (sort (remdups (map key rows)))"

text \<open>The order of the values of a REAL column: \<^verbatim>\<open>NULL\<close>, which is what a NaN is stored
  as, then the numbers in their order.\<close>

fun sort_rank :: "double \<Rightarrow> nat \<times> real" where
  "sort_rank NaN = (0, 0)"
| "sort_rank MinusInfinity = (1, 0)"
| "sort_rank (Finite x) = (2, x)"
| "sort_rank PlusInfinity = (3, 0)"

definition SUM_amount :: "libs \<Rightarrow> transaction_row list \<Rightarrow> double" where
  "SUM_amount L rows = sqlite_SUM L (map amount rows)"

text \<open>
  The query of \<^verbatim>\<open>getTransactions\<close> is put together at run time:
  \<^verbatim>\<open>SELECT * FROM transactions WHERE 1=1\<close>, then any of the four \<^verbatim>\<open>AND\<close> clauses, each
  with a placeholder, then \<^verbatim>\<open>ORDER BY date DESC LIMIT ? OFFSET ?\<close>. The parameters are
  bound to the placeholders from left to right. The columns compared have TEXT
  affinity, so a number bound to a clause is compared as its text; text is compared
  byte by byte. A call that does not supply one parameter per placeholder, or whose
  limit and offset are not numbers, is rejected.
\<close>

datatype where_clause = AND_type_eq | AND_category_eq | AND_date_ge | AND_date_le

datatype sql_value = Text string | Integer int

fun as_text :: "sql_value \<Rightarrow> string" where
  "as_text (Text t) = t"
| "as_text (Integer n) = number_toString n"

fun holds :: "where_clause \<Rightarrow> string \<Rightarrow> transaction_row \<Rightarrow> bool" where
  "holds AND_type_eq v r = (txn_type r = v)"
| "holds AND_category_eq v r = (category r = Some v)"
| "holds AND_date_ge v r = (date r \<ge> v)"
| "holds AND_date_le v r = (date r \<le> v)"

fun bind_where ::
  "where_clause list \<Rightarrow> sql_value list \<Rightarrow> ((transaction_row \<Rightarrow> bool) \<times> sql_value list) option" where
  "bind_where [] params = Some (\<lambda>r. True, params)"
| "bind_where (c # cs) [] = None"
| "bind_where (c # cs) (v # params) =
     (case bind_where cs params of
        None \<Rightarrow> None
      | Some (p, rest) \<Rightarrow> Some (\<lambda>r. holds c (as_text v) r \<and> p r, rest))"

definition SELECT_FROM_transactions :: "where_clause list \<Rightarrow> sql_value list \<Rightarrow> transaction_row list sql" where
  "SELECT_FROM_transactions clauses params db =
     chain (table ''transactions'' (transactions db)) (\<lambda>rows.
       case bind_where clauses params of
         Some (p, [Integer limit, Integer offset]) \<Rightarrow>
           Inr (LIMIT_OFFSET limit offset (ORDER_BY_DESC date (filter p rows)), db)
       | _ \<Rightarrow> Inl (Error ''bind or column index out of range''))"

text \<open>\<^verbatim>\<open>SELECT type, SUM(amount) as total FROM transactions WHERE date >= ? AND date <= ?
  GROUP BY type\<close>\<close>

definition SELECT_type_SUM_amount :: "libs \<Rightarrow> string \<Rightarrow> string \<Rightarrow> (string \<times> double) list sql" where
  "SELECT_type_SUM_amount L startDate endDate db =
     chain (table ''transactions'' (transactions db)) (\<lambda>rows.
       Inr (map (\<lambda>(k, g). (k, SUM_amount L g))
              (GROUP_BY txn_type (filter (\<lambda>r. date r \<ge> startDate \<and> date r \<le> endDate) rows)),
            db))"

text \<open>\<^verbatim>\<open>SELECT category, SUM(amount) as total, COUNT(*) as count FROM transactions
  WHERE type = ? AND date >= ? AND date <= ? GROUP BY category ORDER BY total DESC\<close>\<close>

definition SELECT_category_SUM_COUNT ::
  "libs \<Rightarrow> string \<Rightarrow> string \<Rightarrow> string \<Rightarrow> (string option \<times> double \<times> nat) list sql" where
  "SELECT_category_SUM_COUNT L ty startDate endDate db =
     chain (table ''transactions'' (transactions db)) (\<lambda>rows.
       Inr (ORDER_BY_DESC (\<lambda>(k, total, n). sort_rank total)
              (map (\<lambda>(k, g). (k, SUM_amount L g, length g))
                 (GROUP_BY category
                    (filter (\<lambda>r. txn_type r = ty \<and> date r \<ge> startDate \<and> date r \<le> endDate) rows))),
            db))"

text \<open>\<^verbatim>\<open>SELECT strftime('%Y-%m', date) as month, type, SUM(amount) as total
  FROM transactions WHERE date >= ? GROUP BY month, type ORDER BY month DESC\<close>;
  a date that \<^verbatim>\<open>strftime\<close> cannot read gives the month \<^verbatim>\<open>NULL\<close>, which sorts below
  every text.\<close>

definition SELECT_month_type_SUM ::
  "libs \<Rightarrow> string \<Rightarrow> (string option \<times> string \<times> double) list sql" where
  "SELECT_month_type_SUM L startDate db =
     chain (table ''transactions'' (transactions db)) (\<lambda>rows.
       Inr (ORDER_BY_DESC (\<lambda>(month, ty, total). month)
              (map (\<lambda>((month, ty), g). (month, ty, SUM_amount L g))
                 (GROUP_BY (\<lambda>r. (strftime_Ym L (date r), txn_type r))
                    (filter (\<lambda>r. date r \<ge> startDate) rows))),
            db))"

text \<open>\<^verbatim>\<open>SELECT value FROM settings WHERE key = ?\<close>\<close>

definition SELECT_value_FROM_settings :: "string \<Rightarrow> string list sql" where
  "SELECT_value_FROM_settings k db =
     chain (table ''settings'' (settings db)) (\<lambda>rows.
       Inr (map setting_value (filter (\<lambda>r. setting_key r = k) rows), db))"

section \<open>DatabaseService\<close>

text \<open>
  The two fields of the class, followed by what it reaches outside itself: the database
  file, the error \<^verbatim>\<open>SQLite.openDatabase\<close> rejects with (if it does), the outcomes of
  the coming \<^verbatim>\<open>executeSql\<close> calls (\<open>Some e\<close>: that call rejects with \<open>e\<close> before it
  touches the file; an exhausted list: no such failure), \<^verbatim>\<open>Date.now()\<close>, and the
  values \<^verbatim>\<open>Math.random().toString(36).substr(2, 9)\<close> returns call after call.
\<close>

datatype connection = Connection string

record database_service =
  db :: "connection option"
  isInitialized :: bool
  disk :: database
  open_error :: "error option"
  sql_faults :: "error option list"
  clock :: int
  random36 :: "nat \<Rightarrow> string"
  draws :: nat

text \<open>The constructor, given the outside world it starts in.\<close>

definition new_DatabaseService ::
  "database \<Rightarrow> error option \<Rightarrow> error option list \<Rightarrow> int \<Rightarrow> (nat \<Rightarrow> string) \<Rightarrow> database_service" where
  "new_DatabaseService f oe faults now rnd =
     \<lparr> db = None, isInitialized = False, disk = f, open_error = oe, sql_faults = faults,
       clock = now, random36 = rnd, draws = 0 \<rparr>"

definition openDatabase :: "(database_service, connection) io" where
  "openDatabase = (\<lambda>s.
     case open_error s of
       Some e \<Rightarrow> (Inl e, s)
     | None \<Rightarrow> (Inr (Connection ''budgetwise.db''), s))"

text \<open>
  \<^verbatim>\<open>this.db.executeSql(sql, [...])\<close>. JavaScript reads the callee first: when
  \<^verbatim>\<open>this.db\<close> is still \<^verbatim>\<open>null\<close> the engine's TypeError is thrown before any element of
  the parameter array is evaluated. Then the parameter array is evaluated, which can
  throw where an element is a \<^verbatim>\<open>toISOString()\<close> call; \<open>executeSql_args\<close> takes that
  evaluation as its argument. Then the call is made: the next scheduled failure, else
  the statement on the file. \<open>executeSql\<close> is the call whose parameters are plain
  variables.
\<close>

definition run_on_file :: "'a sql \<Rightarrow> (database_service, 'a) io" where
  "run_on_file stmt = (\<lambda>s.
     case stmt (disk s) of
       Inl e \<Rightarrow> (Inl e, s)
     | Inr (x, f) \<Rightarrow> (Inr x, s\<lparr>disk := f\<rparr>))"

definition executeSql_args :: "libs \<Rightarrow> error + 'a sql \<Rightarrow> (database_service, 'a) io" where
  "executeSql_args L args = (\<lambda>s.
     case db s of
       None \<Rightarrow> (Inl (null_read_error L ''executeSql''), s)
     | Some c \<Rightarrow>
         (case args of
            Inl e \<Rightarrow> (Inl e, s)
          | Inr stmt \<Rightarrow>
              (case sql_faults s of
                 [] \<Rightarrow> run_on_file stmt s
               | None # fs \<Rightarrow> run_on_file stmt (s\<lparr>sql_faults := fs\<rparr>)
               | Some e # fs \<Rightarrow> (Inl e, s\<lparr>sql_faults := fs\<rparr>))))"

definition executeSql :: "libs \<Rightarrow> 'a sql \<Rightarrow> (database_service, 'a) io" where
  "executeSql L stmt = executeSql_args L (Inr stmt)"

subsection \<open>Initialization and seeding\<close>

definition defaultCategories :: "(string \<times> string \<times> string \<times> string) list" where
  "defaultCategories =
     [(''Salary'', ''income'', ''#10b981'', ''briefcase''),
      (''Food & Dining'', ''expense'', ''#ef4444'', ''restaurant''),
      (''Transportation'', ''expense'', ''#f97316'', ''car''),
      (''Shopping'', ''expense'', ''#eab308'', ''bag''),
      (''Entertainment'', ''expense'', ''#8b5cf6'', ''film'')]"

definition defaultSettings :: "(string \<times> string) list" where
  "defaultSettings =
     [(''currency'', ''USD''), (''theme'', ''system''),
      (''notifications'', ''true''), (''firstLaunch'', ''true'')]"

text \<open>\<^verbatim>\<open>'cat_' + Date.now() + '_' + Math.random().toString(36).substr(2, 9)\<close>\<close>

definition new_category_id :: "(database_service, string) io" where
  "new_category_id = (\<lambda>s.
     (Inr (''cat_'' @ number_toString (clock s) @ ''_'' @ random36 s (draws s)),
      s\<lparr>draws := Suc (draws s)\<rparr>))"

text \<open>\<^verbatim>\<open>new Date().toISOString()\<close>\<close>

definition now_ISOString :: "libs \<Rightarrow> (database_service, string) io" where
  "now_ISOString L = (\<lambda>s. (Inr (date_toISOString L (clock s)), s))"

text \<open>The bodies of the two seeding loops, then the loops inside their
  \<^verbatim>\<open>try\<close>/\<^verbatim>\<open>catch\<close>.\<close>

definition insert_category :: "libs \<Rightarrow> string \<times> string \<times> string \<times> string \<Rightarrow> (database_service, unit) io" where
  "insert_category L = (\<lambda>(name, ty, color, icon).
     and_then new_category_id (\<lambda>id.
       and_then (now_ISOString L) (\<lambda>now.
         executeSql L (INSERT_OR_IGNORE_INTO_categories
           \<lparr> cat_id = id, cat_name = name, cat_type = ty, cat_color = Some color,
             cat_icon = Some icon, cat_parentId = None, cat_isActive = Some 1,
             cat_createdAt = now, cat_updatedAt = now \<rparr>))))"

definition insertDefaultCategories :: "libs \<Rightarrow> (database_service, unit) io" where
  "insertDefaultCategories L =
     try_catch (for_each (insert_category L) defaultCategories) (\<lambda>e. return_io ())"

definition insert_setting :: "libs \<Rightarrow> string \<Rightarrow> string \<times> string \<Rightarrow> (database_service, unit) io" where
  "insert_setting L now = (\<lambda>(k, v).
     executeSql L (INSERT_OR_IGNORE_INTO_settings
       \<lparr> setting_key = k, setting_value = v, setting_updatedAt = now \<rparr>))"

definition insertDefaultSettings :: "libs \<Rightarrow> (database_service, unit) io" where
  "insertDefaultSettings L =
     try_catch
       (and_then (now_ISOString L) (\<lambda>now. for_each (insert_setting L now) defaultSettings))
       (\<lambda>e. return_io ())"

definition createTables :: "libs \<Rightarrow> (database_service, unit) io" where
  "createTables L =
     try_catch
       (and_then (executeSql L CREATE_TABLE_IF_NOT_EXISTS_transactions) (\<lambda>_.
        and_then (executeSql L CREATE_TABLE_IF_NOT_EXISTS_budgets) (\<lambda>_.
        and_then (executeSql L CREATE_TABLE_IF_NOT_EXISTS_categories) (\<lambda>_.
        and_then (executeSql L CREATE_TABLE_IF_NOT_EXISTS_settings) (\<lambda>_.
        and_then (insertDefaultCategories L) (\<lambda>_.
        insertDefaultSettings L))))))
       (\<lambda>e. return_io ())"

definition initialize :: "libs \<Rightarrow> (database_service, unit) io" where
  "initialize L = (\<lambda>s.
     if isInitialized s then (Inr (), s)
     else try_catch
            (and_then openDatabase (\<lambda>c.
             and_then (modify (\<lambda>s. s\<lparr>db := Some c\<rparr>)) (\<lambda>_.
             and_then (createTables L) (\<lambda>_.
             modify (\<lambda>s. s\<lparr>isInitialized := True\<rparr>)))))
            (\<lambda>e. modify (\<lambda>s. s\<lparr>isInitialized := True\<rparr>))
            s)"

subsection \<open>Transactions\<close>

text \<open>The argument of \<^verbatim>\<open>addTransaction\<close>: a \<^verbatim>\<open>Transaction\<close> instance, or plain data
  for the constructor.\<close>

datatype transaction_input = Instance transaction | Data json

text \<open>The parameter array of the \<^verbatim>\<open>INSERT\<close>, as the row it makes. Its elements are
  evaluated from left to right: the three \<^verbatim>\<open>toISOString()\<close> calls can throw.\<close>

definition insert_params :: "libs \<Rightarrow> transaction \<Rightarrow> error + transaction_row" where
  "insert_params L txn =
     chain (toISOString (date txn)) (\<lambda>d.
     chain (toISOString (createdAt txn)) (\<lambda>c.
     chain (toISOString (updatedAt txn)) (\<lambda>u.
       Inr \<lparr> txn_id = txn_id txn, amount = amount txn, txn_type = txn_type txn,
             category = category txn, subcategory = subcategory txn,
             description = description txn, date = d, account = account txn,
             currency = currency txn, tags = Some (json_stringify L (tags txn)),
             location = location txn, receipt = receipt txn,
             recurring = Some (if recurring txn then 1 else 0),
             recurringPattern = Some (json_stringify L (recurringPattern txn)),
             createdAt = c, updatedAt = u \<rparr>)))"

text \<open>\<^verbatim>\<open>transaction instanceof Transaction ? transaction : new Transaction(transaction)\<close>\<close>

definition as_Transaction :: "libs \<Rightarrow> transaction_input \<Rightarrow> error + transaction" where
  "as_Transaction L input = (case input of Instance t \<Rightarrow> Inr t | Data d \<Rightarrow> new_Transaction L d)"

definition addTransaction :: "libs \<Rightarrow> transaction_input \<Rightarrow> (database_service, transaction) io" where
  "addTransaction L input =
     and_then (initialize L) (\<lambda>_.
       try_catch
         (and_then (lift_io (as_Transaction L input)) (\<lambda>txn.
          and_then (executeSql_args L
                      (chain (insert_params L txn) (\<lambda>row. Inr (INSERT_INTO_transactions row)))) (\<lambda>_.
          return_io txn)))
         (\<lambda>e. throw_io e))"

text \<open>The \<^verbatim>\<open>filters\<close> object: a key that is absent is \<open>None\<close>.\<close>

record filters =
  filter_type :: "string option"
  filter_category :: "string option"
  filter_startDate :: "string option"
  filter_endDate :: "string option"

text \<open>The query text and the parameter array grow together, one \<^verbatim>\<open>if\<close> after the other.\<close>

definition add_clause ::
  "string option \<Rightarrow> where_clause \<Rightarrow> where_clause list \<times> sql_value list \<Rightarrow> where_clause list \<times> sql_value list" where
  "add_clause v c qp =
     (if truthy v then (fst qp @ [c], snd qp @ [Text (or_else v [])]) else qp)"

definition build_query :: "int \<Rightarrow> int \<Rightarrow> filters \<Rightarrow> where_clause list \<times> sql_value list" where
  "build_query limit offset fs =
     (let qp = add_clause (filter_type fs) AND_type_eq ([], []);
          qp = add_clause (filter_category fs) AND_category_eq qp;
          qp = add_clause (filter_startDate fs) AND_date_ge qp;
          qp = add_clause (filter_endDate fs) AND_date_le qp
      in (fst qp, snd qp @ [Integer limit, Integer offset]))"

text \<open>The body of the loop over the rows: \<^verbatim>\<open>{ ...row }\<close> with three fields replaced,
  then \<^verbatim>\<open>Transaction.fromJSON\<close>.\<close>

definition from_row :: "libs \<Rightarrow> transaction_row \<Rightarrow> error + transaction" where
  "from_row L row =
     chain (json_parse L (or_else (tags row) ''[]'')) (\<lambda>parsed_tags.
     chain (json_parse L (or_else (recurringPattern row) ''null'')) (\<lambda>parsed_pattern.
       Transaction_fromJSON L
         \<lparr> txn_id = txn_id row, amount = amount row, txn_type = txn_type row,
           category = category row, subcategory = subcategory row,
           description = description row, date = date row, account = account row,
           currency = currency row, tags = parsed_tags,
           location = location row, receipt = receipt row,
           recurring = Boolean (recurring row), recurringPattern = parsed_pattern,
           createdAt = createdAt row, updatedAt = updatedAt row \<rparr>))"

definition getTransactions ::
  "libs \<Rightarrow> int \<Rightarrow> int \<Rightarrow> filters \<Rightarrow> (database_service, transaction list) io" where
  "getTransactions L limit offset fs =
     and_then (initialize L) (\<lambda>_.
       try_catch
         (and_then (executeSql L (SELECT_FROM_transactions (fst (build_query limit offset fs))
                                    (snd (build_query limit offset fs)))) (\<lambda>rows.
          lift_io (traverse (from_row L) rows)))
         (\<lambda>e. return_io []))"

subsection \<open>Analytics\<close>

text \<open>
  A summary is an object: a finite map from its own keys to their values.
  \<^verbatim>\<open>summary[k] = v\<close> on an object literal replaces the value of a key that is there and
  adds a key that is not, for every key but one: \<^verbatim>\<open>__proto__\<close> is an accessor
  inherited from \<^verbatim>\<open>Object.prototype\<close>, whose setter adds no key.
\<close>

definition zero_summary :: "string \<rightharpoonup> double" where
  "zero_summary = [''income'' \<mapsto> Finite 0, ''expense'' \<mapsto> Finite 0, ''transfer'' \<mapsto> Finite 0]"

definition set_property :: "string \<Rightarrow> double \<Rightarrow> (string \<rightharpoonup> double) \<Rightarrow> (string \<rightharpoonup> double)" where
  "set_property k v obj = (if k = ''__proto__'' then obj else obj(k \<mapsto> v))"

definition getTransactionSummary ::
  "libs \<Rightarrow> string \<Rightarrow> string \<Rightarrow> (database_service, string \<rightharpoonup> double) io" where
  "getTransactionSummary L startDate endDate =
     and_then (initialize L) (\<lambda>_.
       try_catch
         (and_then (executeSql L (SELECT_type_SUM_amount L startDate endDate)) (\<lambda>rows.
          return_io (fold (\<lambda>(ty, total) summary. set_property ty total summary) rows zero_summary)))
         (\<lambda>e. return_io zero_summary))"

definition getCategoryBreakdown ::
  "libs \<Rightarrow> string \<Rightarrow> string \<Rightarrow> string \<Rightarrow>
     (database_service, (string option \<times> double \<times> nat) list) io" where
  "getCategoryBreakdown L ty startDate endDate =
     and_then (initialize L) (\<lambda>_.
       try_catch
         (executeSql L (SELECT_category_SUM_COUNT L ty startDate endDate))
         (\<lambda>e. return_io []))"

definition getMonthlyTrends ::
  "libs \<Rightarrow> int \<Rightarrow> (database_service, (string option \<times> string \<times> double) list) io" where
  "getMonthlyTrends L months =
     and_then (initialize L) (\<lambda>_.
       try_catch
         (\<lambda>s. executeSql_args L
                (chain (toISOString (months_before L (clock s) months)) (\<lambda>startDate.
                   Inr (SELECT_month_type_SUM L startDate))) s)
         (\<lambda>e. return_io []))"

subsection \<open>Settings\<close>

definition getSetting :: "libs \<Rightarrow> string \<Rightarrow> (database_service, string option) io" where
  "getSetting L k =
     and_then (initialize L) (\<lambda>_.
       try_catch
         (and_then (executeSql L (SELECT_value_FROM_settings k)) (\<lambda>rows.
          return_io (case rows of [] \<Rightarrow> None | v # _ \<Rightarrow> Some v)))
         (\<lambda>e. return_io None))"

definition setSetting :: "libs \<Rightarrow> string \<Rightarrow> string \<Rightarrow> (database_service, unit) io" where
  "setSetting L k v =
     and_then (initialize L) (\<lambda>_.
       try_catch
         (and_then (now_ISOString L) (\<lambda>now.
          executeSql L (INSERT_OR_REPLACE_INTO_settings
            \<lparr> setting_key = k, setting_value = v, setting_updatedAt = now \<rparr>)))
         (\<lambda>e. return_io ()))"

section \<open>AuthService\<close>

text \<open>
  The fields of the class, followed by what it reaches outside itself: the contents of
  the encrypted storage, the outcomes of the coming storage calls (\<open>Some e\<close>: that call
  rejects with \<open>e\<close>; an exhausted list: no failure), \<^verbatim>\<open>Date.now()\<close>, and the values
  \<^verbatim>\<open>CryptoJS.lib.WordArray.random(256/8).toString()\<close> returns call after call.
  A running interval timer is represented by its period in milliseconds.
\<close>

record auth_service =
  isAuthenticated :: bool
  authMethod :: string
  sessionTimeout :: int
  lastActivity :: int
  sessionTimer :: "nat option"
  items :: "(string \<times> string) list"
  storage_faults :: "error option list"
  date_now :: int
  random_keys :: "nat \<Rightarrow> string"
  key_draws :: nat

datatype auth_result = Success | Failure string | RequiresPIN

text \<open>The constructor, given the outside world it starts in.\<close>

definition new_AuthService ::
  "(string \<times> string) list \<Rightarrow> error option list \<Rightarrow> int \<Rightarrow> (nat \<Rightarrow> string) \<Rightarrow> auth_service" where
  "new_AuthService stored faults now rnd =
     \<lparr> isAuthenticated = False, authMethod = ''none'', sessionTimeout = 5 * 60 * 1000,
       lastActivity = now, sessionTimer = None, items = stored, storage_faults = faults,
       date_now = now, random_keys = rnd, key_draws = 0 \<rparr>"

subsection \<open>Encrypted storage\<close>

definition storage_call :: "(auth_service \<Rightarrow> 'a \<times> auth_service) \<Rightarrow> (auth_service, 'a) io" where
  "storage_call f = (\<lambda>s.
     case storage_faults s of
       [] \<Rightarrow> (case f s of (x, s') \<Rightarrow> (Inr x, s'))
     | None # fs \<Rightarrow> (case f (s\<lparr>storage_faults := fs\<rparr>) of (x, s') \<Rightarrow> (Inr x, s'))
     | Some e # fs \<Rightarrow> (Inl e, s\<lparr>storage_faults := fs\<rparr>))"

definition getItem :: "string \<Rightarrow> (auth_service, string option) io" where
  "getItem k = storage_call (\<lambda>s. (map_of (items s) k, s))"

definition setItem :: "string \<Rightarrow> string \<Rightarrow> (auth_service, unit) io" where
  "setItem k v = storage_call (\<lambda>s. ((), s\<lparr>items := AList.update k v (items s)\<rparr>))"

subsection \<open>Session\<close>

definition updateLastActivity :: "auth_service \<Rightarrow> auth_service" where
  "updateLastActivity s = s\<lparr>lastActivity := date_now s\<rparr>"

definition clearSessionTimer :: "auth_service \<Rightarrow> auth_service" where
  "clearSessionTimer s = (case sessionTimer s of Some t \<Rightarrow> s\<lparr>sessionTimer := None\<rparr> | None \<Rightarrow> s)"

definition logout :: "auth_service \<Rightarrow> auth_service" where
  "logout s = clearSessionTimer (s\<lparr>isAuthenticated := False\<rparr>)"

text \<open>The callback \<^verbatim>\<open>startSessionTimer\<close> hands to \<^verbatim>\<open>setInterval\<close>: one tick of the
  session check, at the time \<open>date_now\<close> of the state.\<close>

definition session_check :: "auth_service \<Rightarrow> auth_service" where
  "session_check s =
     (if isAuthenticated s \<and> date_now s - lastActivity s > sessionTimeout s then logout s else s)"

definition startSessionTimer :: "auth_service \<Rightarrow> auth_service" where
  "startSessionTimer s = (clearSessionTimer s)\<lparr>sessionTimer := Some 30000\<rparr>"

subsection \<open>Authentication\<close>

definition authenticateWithPIN :: "libs \<Rightarrow> string \<Rightarrow> (auth_service, auth_result) io" where
  "authenticateWithPIN L pin =
     try_catch
       (and_then (getItem ''userPIN'') (\<lambda>storedHashedPIN.
          if \<not> truthy storedHashedPIN then return_io (Failure ''No PIN set up'')
          else if Some (sha256 L pin) = storedHashedPIN
            then (\<lambda>s. (Inr Success, updateLastActivity (s\<lparr>isAuthenticated := True\<rparr>)))
            else return_io (Failure ''Incorrect PIN'')))
       (\<lambda>e. return_io (Failure (message e)))"

definition authenticate :: "(auth_service, auth_result) io" where
  "authenticate =
     try_catch
       (\<lambda>s. if authMethod s = ''none''
               then (Inr Success, updateLastActivity (s\<lparr>isAuthenticated := True\<rparr>))
             else if authMethod s = ''pin'' then (Inr RequiresPIN, s)
             else (Inr Success, updateLastActivity (s\<lparr>isAuthenticated := True\<rparr>)))
       (\<lambda>e s. (Inr Success, updateLastActivity (s\<lparr>isAuthenticated := True\<rparr>)))"

subsection \<open>Encryption\<close>

definition new_key :: "(auth_service, string) io" where
  "new_key = (\<lambda>s. (Inr (random_keys s (key_draws s)), s\<lparr>key_draws := Suc (key_draws s)\<rparr>))"

definition generateEncryptionKey :: "(auth_service, string) io" where
  "generateEncryptionKey =
     try_catch
       (and_then (getItem ''encryptionKey'') (\<lambda>stored.
          case (if truthy stored then stored else None) of
            None \<Rightarrow>
              and_then new_key (\<lambda>key.
                and_then (setItem ''encryptionKey'' key) (\<lambda>_. return_io key))
          | Some key \<Rightarrow> return_io key))
       (\<lambda>e s. (Inr (''default-encryption-key-'' @ number_toString (date_now s)), s))"

definition encryptData :: "libs \<Rightarrow> json \<Rightarrow> (auth_service, string) io" where
  "encryptData L data =
     try_catch
       (and_then generateEncryptionKey (\<lambda>key.
          lift_io (aes_encrypt L (json_stringify L data) key)))
       (\<lambda>e. return_io (json_stringify L data))"

definition decryptData :: "libs \<Rightarrow> string \<Rightarrow> (auth_service, json) io" where
  "decryptData L encryptedData =
     try_catch
       (and_then generateEncryptionKey (\<lambda>key.
          and_then (lift_io (aes_decrypt L encryptedData key)) (\<lambda>decrypted.
            and_then (lift_io (utf8_toString L decrypted)) (\<lambda>decryptedString.
              lift_io (json_parse L decryptedString)))))
       (\<lambda>e. try_catch (lift_io (json_parse L encryptedData)) (\<lambda>e'. return_io JNull))"

section \<open>What the operations leave behind\<close>

text \<open>
  Closed forms used in the proofs. \<open>seed_category\<close> and \<open>seed_setting\<close> are what one
  round of a seeding loop does to its table when the store does not fail;
  \<open>seeded\<close> is the database after \<^verbatim>\<open>createTables\<close> then.
\<close>

definition rows_of :: "'a list option \<Rightarrow> 'a list" where
  "rows_of t = (case t of None \<Rightarrow> [] | Some rows \<Rightarrow> rows)"

definition seed_category ::
  "libs \<Rightarrow> int \<Rightarrow> string \<Rightarrow> string \<times> string \<times> string \<times> string \<Rightarrow> category_row list \<Rightarrow> category_row list" where
  "seed_category L now r = (\<lambda>(name, ty, color, icon) rows.
     if ''cat_'' @ number_toString now @ ''_'' @ r \<in> set (map cat_id rows) then rows
     else rows @ [\<lparr> cat_id = ''cat_'' @ number_toString now @ ''_'' @ r, cat_name = name,
                     cat_type = ty, cat_color = Some color, cat_icon = Some icon,
                     cat_parentId = None, cat_isActive = Some 1,
                     cat_createdAt = date_toISOString L now,
                     cat_updatedAt = date_toISOString L now \<rparr>])"

fun seed_categories ::
  "libs \<Rightarrow> int \<Rightarrow> (nat \<Rightarrow> string) \<Rightarrow> nat \<Rightarrow> (string \<times> string \<times> string \<times> string) list
     \<Rightarrow> category_row list \<Rightarrow> category_row list" where
  "seed_categories L now rnd n [] rows = rows"
| "seed_categories L now rnd n (c # cs) rows =
     seed_categories L now rnd (Suc n) cs (seed_category L now (rnd n) c rows)"

definition seed_setting :: "string \<Rightarrow> string \<times> string \<Rightarrow> setting_row list \<Rightarrow> setting_row list" where
  "seed_setting now = (\<lambda>(k, v) rows.
     if k \<in> set (map setting_key rows) then rows
     else rows @ [\<lparr> setting_key = k, setting_value = v, setting_updatedAt = now \<rparr>])"

definition seeded :: "libs \<Rightarrow> database_service \<Rightarrow> database" where
  "seeded L s =
     \<lparr> transactions = if_not_exists (transactions (disk s)),
       budgets = if_not_exists (budgets (disk s)),
       categories = Some (seed_categories L (clock s) (random36 s) (draws s) defaultCategories
                            (rows_of (categories (disk s)))),
       settings = Some (fold (seed_setting (date_toISOString L (clock s))) defaultSettings
                            (rows_of (settings (disk s)))) \<rparr>"

text \<open>The rows an operation finds; a table that does not exist yet has none.\<close>

definition stored_transactions :: "database_service \<Rightarrow> transaction_row list" where
  "stored_transactions s = rows_of (transactions (disk s))"

definition stored_settings :: "database_service \<Rightarrow> setting_row list" where
  "stored_settings s = rows_of (settings (disk s))"

definition stored_categories :: "database_service \<Rightarrow> category_row list" where
  "stored_categories s = rows_of (categories (disk s))"

text \<open>
  A service is \<open>ready\<close> when it has been initialized, holds a connection, no call is
  going to be rejected and the tables it reads exist. It is \<open>working\<close> when it is ready,
  or not yet initialized with a database that will open and no call going to be rejected.
\<close>

definition ready :: "database_service \<Rightarrow> bool" where
  "ready s = (isInitialized s \<and> db s \<noteq> None \<and> sql_faults s = []
              \<and> transactions (disk s) \<noteq> None \<and> settings (disk s) \<noteq> None)"

definition working :: "database_service \<Rightarrow> bool" where
  "working s = (if isInitialized s then ready s else open_error s = None \<and> sql_faults s = [])"



text \<open>
  The rows a \<^verbatim>\<open>filters\<close> object selects. \<open>matches\<close>: a key with a non-empty value
  constrains the row, a key that is absent or holds the empty string does not.
  \<open>matches_present\<close>: every key that is present constrains the row, whatever it holds.
\<close>

definition applies :: "string option \<Rightarrow> (string \<Rightarrow> bool) \<Rightarrow> bool" where
  "applies v P = (case v of None \<Rightarrow> True | Some t \<Rightarrow> t = [] \<or> P t)"

definition matches :: "filters \<Rightarrow> transaction_row \<Rightarrow> bool" where
  "matches fs r =
     (applies (filter_type fs) (\<lambda>t. txn_type r = t)
      \<and> applies (filter_category fs) (\<lambda>c. category r = Some c)
      \<and> applies (filter_startDate fs) (\<lambda>d. date r \<ge> d)
      \<and> applies (filter_endDate fs) (\<lambda>d. date r \<le> d))"

definition present :: "string option \<Rightarrow> (string \<Rightarrow> bool) \<Rightarrow> bool" where
  "present v P = (case v of None \<Rightarrow> True | Some t \<Rightarrow> P t)"

definition matches_present :: "filters \<Rightarrow> transaction_row \<Rightarrow> bool" where
  "matches_present fs r =
     (present (filter_type fs) (\<lambda>t. txn_type r = t)
      \<and> present (filter_category fs) (\<lambda>c. category r = Some c)
      \<and> present (filter_startDate fs) (\<lambda>d. date r \<ge> d)
      \<and> present (filter_endDate fs) (\<lambda>d. date r \<le> d))"

text \<open>
  What \<^verbatim>\<open>getTransactions\<close> makes of a row. \<open>parsed_from column d v\<close>: the JSON text of
  the column, or \<open>d\<close> where the column is \<^verbatim>\<open>NULL\<close> or empty, parses to \<open>v\<close>.
  \<open>deserialized row t\<close>: \<open>t\<close> is the \<^verbatim>\<open>Transaction\<close> made from an object that has
  \<^verbatim>\<open>tags\<close> and \<^verbatim>\<open>recurringPattern\<close> parsed from the text of the row, \<^verbatim>\<open>recurring\<close>
  true exactly when the row holds a number other than 0 there, and every other field as
  the row has it.
\<close>

definition parsed_from :: "libs \<Rightarrow> string option \<Rightarrow> string \<Rightarrow> json \<Rightarrow> bool" where
  "parsed_from L column d v =
     (json_parse L (case column of None \<Rightarrow> d | Some t \<Rightarrow> if t = [] then d else t) = Inr v)"

definition deserialized :: "libs \<Rightarrow> transaction_row \<Rightarrow> transaction \<Rightarrow> bool" where
  "deserialized L row t =
     (\<exists>obj. Transaction_fromJSON L obj = Inr t
        \<and> parsed_from L (tags row) ''[]'' (tags obj)
        \<and> parsed_from L (recurringPattern row) ''null'' (recurringPattern obj)
        \<and> recurring obj = (recurring row \<noteq> None \<and> recurring row \<noteq> Some 0)
        \<and> txn_id obj = txn_id row \<and> amount obj = amount row \<and> txn_type obj = txn_type row
        \<and> category obj = category row \<and> subcategory obj = subcategory row
        \<and> description obj = description row \<and> date obj = date row
        \<and> account obj = account row \<and> currency obj = currency row
        \<and> location obj = location row \<and> receipt obj = receipt row
        \<and> createdAt obj = createdAt row \<and> updatedAt obj = updatedAt row)"

definition deserializable :: "libs \<Rightarrow> transaction_row \<Rightarrow> bool" where
  "deserializable L row = (\<exists>t. deserialized L row t)"

text \<open>A page of a list: \<open>offset\<close> rows skipped, then at most \<open>limit\<close> rows, all of them
  for a negative limit.\<close>

definition paginate :: "int \<Rightarrow> int \<Rightarrow> 'a list \<Rightarrow> 'a list" where
  "paginate limit offset rows =
     (if limit < 0 then drop (nat offset) rows else take (nat limit) (drop (nat offset) rows))"

section \<open>Contracts of the libraries, and an instance for concrete runs\<close>

text \<open>What crypto-js promises for one message and one key: encryption succeeds, and
  decrypting its result with the same key and reading it as UTF-8 gives the message
  back.\<close>

definition aes_roundtrips :: "libs \<Rightarrow> string \<Rightarrow> string \<Rightarrow> bool" where
  "aes_roundtrips L m key =
     (case aes_encrypt L m key of
        Inl e \<Rightarrow> False
      | Inr c \<Rightarrow> chain (aes_decrypt L c key) (utf8_toString L) = Inr m)"

text \<open>
  A small instance of the library interface, on which the theorems below are run at
  concrete inputs. Its cipher puts the key in front of the message; its JSON functions
  know the values of \<open>json_texts\<close> and their texts; its \<^verbatim>\<open>SUM\<close> adds the finite values
  exactly; the message of its TypeError is the one of V8; its dates are rendered as
  \<^verbatim>\<open>T\<close> followed by the milliseconds; its \<^verbatim>\<open>Transaction\<close> class copies the fields it
  is given.
\<close>

definition json_texts :: "(string \<times> json) list" where
  \<open>json_texts =
     [(''null'', JNull), (''true'', JBool True), (''false'', JBool False),
      (''[]'', JArray []), (''{}'', JObject []), (''""'', JString []),
      (''["food","lunch"]'', JArray [JString ''food'', JString ''lunch'']),
      (''{"every":"month"}'', JObject [(''every'', JString ''month'')]),
      (''{"items":[1,{"note":null}],"memo":""}'',
       JObject [(''items'', JArray [JNumber 1, JObject [(''note'', JNull)]]),
                (''memo'', JString [])])]\<close>

fun finite_part :: "double \<Rightarrow> real" where
  "finite_part (Finite x) = x"
| "finite_part _ = 0"

fun field_text :: "json option \<Rightarrow> string option" where
  "field_text (Some (JString t)) = Some t"
| "field_text _ = None"

fun field_number :: "json option \<Rightarrow> real" where
  "field_number (Some (JNumber a)) = a"
| "field_number _ = 0"

fun field_json :: "json option \<Rightarrow> json \<Rightarrow> json" where
  "field_json (Some v) d = v"
| "field_json None d = d"

definition test_libs :: libs where
  "test_libs =
     \<lparr> sha256 = (\<lambda>p. ''#'' @ p),
       aes_encrypt = (\<lambda>m k. Inr (k @ m)),
       aes_decrypt = (\<lambda>c k. if take (length k) c = k then Inr (drop (length k) c)
                              else Inl (Error ''Malformed data'')),
       utf8_toString = Inr,
       json_stringify = (\<lambda>v. case map_of (map (\<lambda>(t, w). (w, t)) json_texts) v of
                                 Some t \<Rightarrow> t | None \<Rightarrow> ''{}''),
       json_parse = (\<lambda>t. case map_of json_texts t of
                             Some v \<Rightarrow> Inr v | None \<Rightarrow> Inl (SyntaxError ''Unexpected token'')),
       date_toISOString = (\<lambda>ms. ''T'' @ number_toString ms),
       months_before = (\<lambda>ms n. ValidDate (''T'' @ number_toString (ms - n * 2592000000))),
       strftime_Ym = (\<lambda>d. Some (take 7 d)),
       sqlite_SUM = (\<lambda>xs. Finite (sum_list (map finite_part xs))),
       null_read_error = (\<lambda>p. TypeError (''Cannot read properties of null (reading '' @ [CHR 0x27]
                                          @ p @ [CHR 0x27] @ '')'')),
       new_Transaction = (\<lambda>d.
         case d of
           JObject fs \<Rightarrow> Inr
             \<lparr> txn_id = or_else (field_text (map_of fs ''id'')) ''txn_new'',
               amount = Finite (field_number (map_of fs ''amount'')),
               txn_type = or_else (field_text (map_of fs ''type'')) ''expense'',
               category = field_text (map_of fs ''category''),
               subcategory = field_text (map_of fs ''subcategory''),
               description = field_text (map_of fs ''description''),
               date = ValidDate (or_else (field_text (map_of fs ''date'')) ''T0''),
               account = Some (or_else (field_text (map_of fs ''account'')) ''main''),
               currency = Some (or_else (field_text (map_of fs ''currency'')) ''USD''),
               tags = field_json (map_of fs ''tags'') (JArray []),
               location = field_text (map_of fs ''location''),
               receipt = field_text (map_of fs ''receipt''),
               recurring = (map_of fs ''recurring'' = Some (JBool True)),
               recurringPattern = field_json (map_of fs ''recurringPattern'') JNull,
               createdAt = ValidDate ''T0'', updatedAt = ValidDate ''T0'' \<rparr>
         | _ \<Rightarrow> Inl (TypeError ''Cannot read properties of undefined'')),
       Transaction_fromJSON = (\<lambda>obj. Inr
         \<lparr> txn_id = txn_id obj, amount = amount obj, txn_type = txn_type obj,
           category = category obj, subcategory = subcategory obj,
           description = description obj, date = ValidDate (date obj),
           account = account obj, currency = currency obj, tags = tags obj,
           location = location obj, receipt = receipt obj, recurring = recurring obj,
           recurringPattern = recurringPattern obj,
           createdAt = ValidDate (createdAt obj), updatedAt = ValidDate (updatedAt obj) \<rparr>) \<rparr>"

definition test_auth :: auth_service where
  "test_auth = new_AuthService [] [] 1700000000000 (\<lambda>n. ''5f2a'' @ digits10 n)"

text \<open>The service of a later launch, on the storage the first one left with its key, and
  a nested value to encrypt.\<close>

definition later_session :: auth_service where
  "later_session =
     new_AuthService [(''encryptionKey'', ''5f2a0'')] [] 1700003600000 (\<lambda>n. ''9c1e'' @ digits10 n)"

definition nested_value :: json where
  "nested_value =
     JObject [(''items'', JArray [JNumber 1, JObject [(''note'', JNull)]]), (''memo'', JString [])]"

text \<open>A stored transaction and an initialized service over a database with the given
  transactions.\<close>

definition test_row :: "string \<Rightarrow> real \<Rightarrow> string \<Rightarrow> string \<Rightarrow> transaction_row" where
  "test_row i a ty d =
     \<lparr> txn_id = i, amount = Finite a, txn_type = ty, category = Some ''Salary'', subcategory = None,
       description = None, date = d, account = Some ''main'', currency = Some ''USD'',
       tags = Some ''[]'', location = None, receipt = None, recurring = Some 0,
       recurringPattern = Some ''null'', createdAt = d, updatedAt = d \<rparr>"

definition test_service :: "transaction_row list \<Rightarrow> database_service" where
  "test_service rows =
     \<lparr> db = Some (Connection ''budgetwise.db''), isInitialized = True,
       disk = \<lparr> transactions = Some rows, budgets = Some [], categories = Some [],
                settings = Some [] \<rparr>,
       open_error = None, sql_faults = [], clock = 1700000000000,
       random36 = (\<lambda>n. ''r'' @ digits10 n), draws = 0 \<rparr>"



text \<open>Stored transactions with tags, a recurrence pattern and the \<^verbatim>\<open>recurring\<close> flag
  set, with these columns \<^verbatim>\<open>NULL\<close> or empty, and with tags that are not JSON.\<close>

definition tagged_transactions :: database_service where
  \<open>tagged_transactions =
     test_service
       [(test_row ''t5'' 12 ''expense'' ''2024-03-02T12:00:00.000Z'')
          \<lparr>tags := Some ''["food","lunch"]'', recurring := Some 1,
           recurringPattern := Some ''{"every":"month"}''\<rparr>,
        (test_row ''t6'' 30 ''expense'' ''2024-03-05T08:00:00.000Z'')
          \<lparr>tags := None, recurring := None, recurringPattern := Some []\<rparr>,
        test_row ''t7'' 2000 ''income'' ''2024-03-01T09:00:00.000Z'']\<close>

definition broken_tags :: database_service where
  "broken_tags =
     test_service
       [test_row ''t7'' 2000 ''income'' ''2024-03-01T09:00:00.000Z'',
        (test_row ''t8'' 5 ''expense'' ''2024-03-03T10:00:00.000Z'')\<lparr>tags := Some ''food, lunch''\<rparr>]"

definition no_filters :: filters where
  "no_filters = \<lparr> filter_type = None, filter_category = None, filter_startDate = None,
                  filter_endDate = None \<rparr>"

definition three_transactions :: database_service where
  "three_transactions =
     test_service [test_row ''t1'' 100 ''income'' ''2024-01-10T09:00:00.000Z'',
                   test_row ''t2'' 40 ''expense'' ''2024-01-20T18:30:00.000Z'',
                   test_row ''t3'' 15 ''expense'' ''2024-01-05T12:00:00.000Z'']"

definition test_transaction :: transaction where
  "test_transaction =
     \<lparr> txn_id = ''t9'', amount = Finite 12.5, txn_type = ''expense'', category = Some ''Shopping'',
       subcategory = None, description = Some ''socks'', date = ValidDate ''2024-02-01T10:00:00.000Z'',
       account = Some ''main'', currency = Some ''USD'', tags = JArray [], location = None,
       receipt = None, recurring = False, recurringPattern = JNull,
       createdAt = ValidDate ''2024-02-01T10:00:01.000Z'',
       updatedAt = ValidDate ''2024-02-01T10:00:01.000Z'' \<rparr>"

text \<open>Plain data for a transaction whose id is already stored in \<open>three_transactions\<close>,
  and an initialized service whose next store call is rejected.\<close>

definition plain_data :: json where
  "plain_data =
     JObject [(''id'', JString ''t1''), (''amount'', JNumber 5), (''type'', JString ''expense''),
              (''date'', JString ''2024-02-03T10:00:00.000Z'')]"

definition failing_store :: database_service where
  "failing_store = (test_service [])\<lparr>sql_faults := [Some (Error ''disk I/O error'')]\<rparr>"

text \<open>Services that have not been initialized: on a database that does not exist yet,
  and on one that cannot be opened.\<close>

definition empty_database :: database where
  "empty_database = \<lparr> transactions = None, budgets = None, categories = None, settings = None \<rparr>"

definition fresh_install :: database_service where
  "fresh_install = new_DatabaseService empty_database None [] 1700000000000 (\<lambda>n. ''r'' @ digits10 n)"

definition unopenable :: database_service where
  "unopenable =
     new_DatabaseService empty_database (Some (Error ''unable to open database file'')) []
       1700000000000 (\<lambda>n. ''r'' @ digits10 n)"

text \<open>Two launches of the application on the same database file, a minute apart: each
  launch constructs its own service and initializes it.\<close>

definition first_launch :: database_service where
  "first_launch =
     snd (initialize test_libs
            (new_DatabaseService empty_database None [] 1700000000000 (\<lambda>n. ''r'' @ digits10 n)))"

definition second_launch :: database_service where
  "second_launch =
     snd (initialize test_libs
            (new_DatabaseService (disk first_launch) None [] 1700000060000 (\<lambda>n. ''r'' @ digits10 n)))"

section \<open>Properties of DatabaseService\<close>

subsection \<open>Sequencing, initialization and seeding\<close>

lemma try_catch_Inr: "m s = (Inr x, s') \<Longrightarrow> try_catch m h s = (Inr x, s')"
  by (simp add: try_catch_def)

lemma insert_category_connected:
  assumes "db s = Some c" "sql_faults s = []" "categories (disk s) = Some rows"
  shows "insert_category L a s =
     (Inr (), s\<lparr>draws := Suc (draws s),
                disk := (disk s)\<lparr>categories := Some (seed_category L (clock s) (random36 s (draws s)) a rows)\<rparr>\<rparr>)"
  using assms
  by (cases a)
     (simp add: insert_category_def and_then_def new_category_id_def now_ISOString_def
      executeSql_def executeSql_args_def run_on_file_def INSERT_OR_IGNORE_INTO_categories_def table_def
      seed_category_def)

lemma for_each_insert_category:
  assumes "db s = Some c" "sql_faults s = []" "categories (disk s) = Some rows"
  shows "for_each (insert_category L) cs s =
     (Inr (), s\<lparr>draws := draws s + length cs,
                disk := (disk s)\<lparr>categories := Some (seed_categories L (clock s) (random36 s) (draws s) cs rows)\<rparr>\<rparr>)"
  using assms
proof (induction cs arbitrary: s rows)
  case Nil
  then show ?case by (simp add: return_io_def)
next
  case (Cons a cs)
  let ?rows1 = "seed_category L (clock s) (random36 s (draws s)) a rows"
  let ?s1 = "s\<lparr>draws := Suc (draws s), disk := (disk s)\<lparr>categories := Some ?rows1\<rparr>\<rparr>"
  have 1: "insert_category L a s = (Inr (), ?s1)"
    using Cons.prems by (rule insert_category_connected)
  have 2: "for_each (insert_category L) cs ?s1 =
      (Inr (), ?s1\<lparr>draws := draws ?s1 + length cs,
                disk := (disk ?s1)\<lparr>categories := Some (seed_categories L (clock ?s1) (random36 ?s1) (draws ?s1) cs ?rows1)\<rparr>\<rparr>)"
    by (rule Cons.IH) (use Cons.prems in simp_all)
  show ?case
    by (simp add: and_then_def 1 2)
qed

lemma insert_setting_connected:
  assumes "db s = Some c" "sql_faults s = []" "settings (disk s) = Some rows"
  shows "insert_setting L now a s =
     (Inr (), s\<lparr>disk := (disk s)\<lparr>settings := Some (seed_setting now a rows)\<rparr>\<rparr>)"
  using assms
  by (cases a)
     (simp add: insert_setting_def executeSql_def executeSql_args_def run_on_file_def
       INSERT_OR_IGNORE_INTO_settings_def table_def seed_setting_def)

lemma for_each_insert_setting:
  assumes "db s = Some c" "sql_faults s = []" "settings (disk s) = Some rows"
  shows "for_each (insert_setting L now) kvs s =
     (Inr (), s\<lparr>disk := (disk s)\<lparr>settings := Some (fold (seed_setting now) kvs rows)\<rparr>\<rparr>)"
  using assms
proof (induction kvs arbitrary: s rows)
  case Nil
  then show ?case by (simp add: return_io_def)
next
  case (Cons a kvs)
  let ?rows1 = "seed_setting now a rows"
  let ?s1 = "s\<lparr>disk := (disk s)\<lparr>settings := Some ?rows1\<rparr>\<rparr>"
  have 1: "insert_setting L now a s = (Inr (), ?s1)"
    using Cons.prems by (rule insert_setting_connected)
  have 2: "for_each (insert_setting L now) kvs ?s1 =
      (Inr (), ?s1\<lparr>disk := (disk ?s1)\<lparr>settings := Some (fold (seed_setting now) kvs ?rows1)\<rparr>\<rparr>)"
    by (rule Cons.IH) (use Cons.prems in simp_all)
  show ?case
    by (simp add: and_then_def 1 2)
qed

lemma if_not_exists_rows_of: "if_not_exists t = Some (rows_of t)"
  by (simp add: if_not_exists_def rows_of_def split: option.splits)

lemma insertDefaultCategories_connected:
  assumes "db s = Some c" "sql_faults s = []" "categories (disk s) = Some rows"
  shows "insertDefaultCategories L s =
     (Inr (), s\<lparr>draws := draws s + 5,
                disk := (disk s)\<lparr>categories := Some (seed_categories L (clock s) (random36 s) (draws s) defaultCategories rows)\<rparr>\<rparr>)"
proof -
  have "length defaultCategories = 5" by (simp add: defaultCategories_def)
  then show ?thesis
    using for_each_insert_category[OF assms, of L defaultCategories]
    by (simp add: insertDefaultCategories_def try_catch_def)
qed

lemma insertDefaultSettings_connected:
  assumes "db s = Some c" "sql_faults s = []" "settings (disk s) = Some rows"
  shows "insertDefaultSettings L s =
     (Inr (), s\<lparr>disk := (disk s)\<lparr>settings := Some (fold (seed_setting (date_toISOString L (clock s))) defaultSettings rows)\<rparr>\<rparr>)"
  using for_each_insert_setting[OF assms, of L "date_toISOString L (clock s)" defaultSettings]
  by (simp add: insertDefaultSettings_def try_catch_def and_then_def now_ISOString_def)

lemma createTables_connected:
  assumes "db s = Some c" "sql_faults s = []"
  shows "createTables L s = (Inr (), s\<lparr>draws := draws s + 5, disk := seeded L s\<rparr>)"
proof -
  let ?D4 = "(disk s)\<lparr>transactions := if_not_exists (transactions (disk s)),
                       budgets := if_not_exists (budgets (disk s)),
                       categories := if_not_exists (categories (disk s)),
                       settings := if_not_exists (settings (disk s))\<rparr>"
  let ?s4 = "s\<lparr>disk := ?D4\<rparr>"
  have creates: "and_then (executeSql L CREATE_TABLE_IF_NOT_EXISTS_transactions) (\<lambda>_.
        and_then (executeSql L CREATE_TABLE_IF_NOT_EXISTS_budgets) (\<lambda>_.
        and_then (executeSql L CREATE_TABLE_IF_NOT_EXISTS_categories) (\<lambda>_.
        and_then (executeSql L CREATE_TABLE_IF_NOT_EXISTS_settings) k))) s = k () ?s4" for k :: "unit \<Rightarrow> (database_service, unit) io"
    using assms
    by (simp add: and_then_def executeSql_def executeSql_args_def run_on_file_def
        CREATE_TABLE_IF_NOT_EXISTS_transactions_def CREATE_TABLE_IF_NOT_EXISTS_budgets_def
        CREATE_TABLE_IF_NOT_EXISTS_categories_def CREATE_TABLE_IF_NOT_EXISTS_settings_def)
  have s4: "db ?s4 = Some c" "sql_faults ?s4 = []"
     "categories (disk ?s4) = Some (rows_of (categories (disk s)))"
    using assms by (simp_all add: if_not_exists_rows_of)
  note cats = insertDefaultCategories_connected[OF s4, of L]
  let ?s5 = "?s4\<lparr>draws := draws ?s4 + 5,
                disk := (disk ?s4)\<lparr>categories := Some (seed_categories L (clock ?s4) (random36 ?s4) (draws ?s4) defaultCategories (rows_of (categories (disk s))))\<rparr>\<rparr>"
  have s5: "db ?s5 = Some c" "sql_faults ?s5 = []"
     "settings (disk ?s5) = Some (rows_of (settings (disk s)))"
    using assms by (simp_all add: if_not_exists_rows_of)
  note sets = insertDefaultSettings_connected[OF s5, of L]
  have "and_then (executeSql L CREATE_TABLE_IF_NOT_EXISTS_transactions) (\<lambda>_.
        and_then (executeSql L CREATE_TABLE_IF_NOT_EXISTS_budgets) (\<lambda>_.
        and_then (executeSql L CREATE_TABLE_IF_NOT_EXISTS_categories) (\<lambda>_.
        and_then (executeSql L CREATE_TABLE_IF_NOT_EXISTS_settings) (\<lambda>_.
        and_then (insertDefaultCategories L) (\<lambda>_.
        insertDefaultSettings L))))) s
      = and_then (insertDefaultCategories L) (\<lambda>_. insertDefaultSettings L) ?s4"
    by (rule creates)
  also have "\<dots> = insertDefaultSettings L ?s5"
    using cats by (simp add: and_then_def)
  also have "\<dots> = (Inr (), s\<lparr>draws := draws s + 5, disk := seeded L s\<rparr>)"
    using sets by (simp add: seeded_def)
  finally show ?thesis
    unfolding createTables_def by (rule try_catch_Inr)
qed

lemma initialize_fresh:
  assumes "\<not> isInitialized s" "open_error s = None" "sql_faults s = []"
  shows "initialize L s =
     (Inr (), s\<lparr>db := Some (Connection ''budgetwise.db''), isInitialized := True,
                draws := draws s + 5, disk := seeded L s\<rparr>)"
proof -
  let ?s1 = "s\<lparr>db := Some (Connection ''budgetwise.db'')\<rparr>"
  have "createTables L ?s1 = (Inr (), ?s1\<lparr>draws := draws ?s1 + 5, disk := seeded L ?s1\<rparr>)"
    by (rule createTables_connected) (use assms in simp_all)
  then show ?thesis
    using assms
    by (simp add: initialize_def try_catch_def and_then_def openDatabase_def modify_def seeded_def)
qed

lemma initialize_ready: "ready s \<Longrightarrow> initialize L s = (Inr (), s)"
  by (simp add: ready_def initialize_def)

lemma initialize_working:
  assumes "working s"
  shows "\<exists>s1. initialize L s = (Inr (), s1) \<and> ready s1
           \<and> stored_transactions s1 = stored_transactions s \<and> clock s1 = clock s
           \<and> random36 s1 = random36 s"
proof (cases "isInitialized s")
  case True
  with assms show ?thesis by (simp add: working_def initialize_ready)
next
  case False
  with assms have h: "open_error s = None" "sql_faults s = []" by (simp_all add: working_def)
  from initialize_fresh[OF False h, of L] h show ?thesis
    by (simp add: ready_def seeded_def stored_transactions_def if_not_exists_rows_of rows_of_def)
qed

lemma executeSql_ready:
  "ready s \<Longrightarrow> executeSql L stmt s = run_on_file stmt s"
  by (auto simp: ready_def executeSql_def executeSql_args_def)

subsection \<open>Ordering\<close>

lemma mset_insert_desc: "mset (insert_desc key r xs) = add_mset r (mset xs)"
  by (induction xs) auto

lemma set_insert_desc: "set (insert_desc key r xs) = insert r (set xs)"
  by (induction xs) auto

lemma sorted_insert_desc:
  "sorted_wrt (\<lambda>x y. key x \<ge> key y) xs \<Longrightarrow> sorted_wrt (\<lambda>x y. key x \<ge> key y) (insert_desc key r xs)"
  by (induction xs) (auto simp: set_insert_desc)

lemma mset_ORDER_BY_DESC: "mset (ORDER_BY_DESC key xs) = mset xs"
  by (induction xs) (simp_all add: ORDER_BY_DESC_def mset_insert_desc)

lemma sorted_ORDER_BY_DESC: "sorted_wrt (\<lambda>x y. key x \<ge> key y) (ORDER_BY_DESC key xs)"
  by (induction xs) (simp_all add: ORDER_BY_DESC_def sorted_insert_desc)

subsection \<open>The summary\<close>







lemma working_test_service: "working (test_service rows)"
  by (simp add: working_def ready_def test_service_def)



subsection \<open>Seeding again\<close>

text \<open>
  Seeding the settings a second time changes nothing, whenever it happens. Seeding the
  categories with ids that are new to the table appends every default again.
\<close>

lemma seed_setting_keys:
  "setting_key ` set (seed_setting now kv rows) = insert (fst kv) (setting_key ` set rows)"
  by (cases kv) (auto simp: seed_setting_def)

lemma fold_seed_setting_keys:
  "setting_key ` set (fold (seed_setting now) kvs rows) = fst ` set kvs \<union> setting_key ` set rows"
  by (induction kvs arbitrary: rows) (auto simp: seed_setting_keys)

lemma fold_seed_setting_present:
  "fst ` set kvs \<subseteq> setting_key ` set rows \<Longrightarrow> fold (seed_setting now) kvs rows = rows"
  by (induction kvs arbitrary: rows) (auto simp: seed_setting_def)

lemma seed_settings_idempotent:
  "fold (seed_setting later) kvs (fold (seed_setting now) kvs rows) = fold (seed_setting now) kvs rows"
  by (rule fold_seed_setting_present) (simp add: fold_seed_setting_keys)

lemma insertDefaultSettings_idempotent:
  assumes "db s = Some c" "sql_faults s = []" "settings (disk s) = Some rows"
  shows "snd (insertDefaultSettings L ((snd (insertDefaultSettings L s))\<lparr>clock := t\<rparr>))
         = (snd (insertDefaultSettings L s))\<lparr>clock := t\<rparr>"
proof -
  let ?rows1 = "fold (seed_setting (date_toISOString L (clock s))) defaultSettings rows"
  let ?s1 = "s\<lparr>disk := (disk s)\<lparr>settings := Some ?rows1\<rparr>\<rparr>"
  have 1: "insertDefaultSettings L s = (Inr (), ?s1)"
    by (rule insertDefaultSettings_connected[OF assms])
  have 2: "insertDefaultSettings L (?s1\<lparr>clock := t\<rparr>) =
      (Inr (), (?s1\<lparr>clock := t\<rparr>)\<lparr>disk := (disk (?s1\<lparr>clock := t\<rparr>))\<lparr>settings :=
         Some (fold (seed_setting (date_toISOString L (clock (?s1\<lparr>clock := t\<rparr>)))) defaultSettings ?rows1)\<rparr>\<rparr>)"
    by (rule insertDefaultSettings_connected) (use assms in simp_all)
  show ?thesis
    by (simp add: 1 2 seed_settings_idempotent)
qed

lemma seed_category_fresh:
  assumes "''cat_'' @ number_toString now @ ''_'' @ r \<notin> cat_id ` set rows"
  shows "map cat_name (seed_category L now r c rows) = map cat_name rows @ [fst c]"
    and "cat_id ` set (seed_category L now r c rows)
           = insert (''cat_'' @ number_toString now @ ''_'' @ r) (cat_id ` set rows)"
  using assms by (cases c; auto simp: seed_category_def)+

lemma seed_categories_fresh:
  assumes "\<forall>i < length cs. \<forall>j < length cs. rnd (n + i) = rnd (n + j) \<longrightarrow> i = j"
    and "\<forall>i < length cs. ''cat_'' @ number_toString now @ ''_'' @ rnd (n + i) \<notin> cat_id ` set rows"
  shows "map cat_name (seed_categories L now rnd n cs rows) = map cat_name rows @ map fst cs"
  using assms
proof (induction cs arbitrary: n rows)
  case Nil
  then show ?case by simp
next
  case (Cons c cs)
  let ?id = "\<lambda>k. ''cat_'' @ number_toString now @ ''_'' @ rnd k"
  from Cons.prems(2) have f0: "?id n \<notin> cat_id ` set rows" by force
  let ?rows1 = "seed_category L now (rnd n) c rows"
  have d: "\<forall>i < length cs. \<forall>j < length cs. rnd (Suc n + i) = rnd (Suc n + j) \<longrightarrow> i = j"
  proof (intro allI impI)
    fix i j assume "i < length cs" "j < length cs" "rnd (Suc n + i) = rnd (Suc n + j)"
    with Cons.prems(1)[rule_format, of "Suc i" "Suc j"] show "i = j" by simp
  qed
  have fr: "\<forall>i < length cs. ?id (Suc n + i) \<notin> cat_id ` set ?rows1"
  proof (intro allI impI)
    fix i assume i: "i < length cs"
    with Cons.prems(2)[rule_format, of "Suc i"] have "?id (Suc n + i) \<notin> cat_id ` set rows"
      by simp
    moreover from i Cons.prems(1)[rule_format, of "Suc i" 0] have "rnd (Suc n + i) \<noteq> rnd n"
      by auto
    ultimately show "?id (Suc n + i) \<notin> cat_id ` set ?rows1"
      by (simp add: seed_category_fresh(2)[OF f0])
  qed
  show ?case
    by (simp add: Cons.IH[OF d fr] seed_category_fresh(1)[OF f0])
qed

lemma insertDefaultCategories_appends:
  assumes "db s = Some c" "sql_faults s = []" "categories (disk s) = Some rows"
    and "\<forall>i < 5. \<forall>j < 5. random36 s (draws s + i) = random36 s (draws s + j) \<longrightarrow> i = j"
    and "\<forall>i < 5. ''cat_'' @ number_toString (clock s) @ ''_'' @ random36 s (draws s + i)
                      \<notin> cat_id ` set rows"
  shows "map cat_name (stored_categories (snd (insertDefaultCategories L s))) =
           map cat_name rows
           @ [''Salary'', ''Food & Dining'', ''Transportation'', ''Shopping'', ''Entertainment'']"
proof -
  have l: "length defaultCategories = 5" by (simp add: defaultCategories_def)
  have "map cat_name (seed_categories L (clock s) (random36 s) (draws s) defaultCategories rows)
        = map cat_name rows @ map fst defaultCategories"
    by (rule seed_categories_fresh) (use assms(4,5) in \<open>simp_all only: l\<close>)
  then show ?thesis
    by (simp add: insertDefaultCategories_connected[OF assms(1-3)] stored_categories_def
         rows_of_def defaultCategories_def)
qed

text \<open>The same at two launches on one database.\<close>

lemma rows_of_Some: "rows_of (Some rows) = rows"
  by (simp add: rows_of_def)

lemma disk_first_launch:
  "disk first_launch = seeded test_libs (new_DatabaseService empty_database None [] 1700000000000 (\<lambda>n. ''r'' @ digits10 n))"
  unfolding first_launch_def
  by (subst initialize_fresh) (simp_all add: new_DatabaseService_def)

lemma disk_second_launch:
  "disk second_launch = seeded test_libs (new_DatabaseService (disk first_launch) None [] 1700000060000 (\<lambda>n. ''r'' @ digits10 n))"
  unfolding second_launch_def
  by (subst initialize_fresh) (simp_all add: new_DatabaseService_def)

lemma first_clock_text: "number_toString 1700000000000 = ''1700000000000''"
  by (simp add: number_toString_def digits10.simps)

lemma second_clock_text: "number_toString 1700000060000 = ''1700000060000''"
  by (simp add: number_toString_def digits10.simps)

lemma first_categories:
  "map cat_id (rows_of (categories (disk first_launch))) =
     [''cat_1700000000000_r0'', ''cat_1700000000000_r1'', ''cat_1700000000000_r2'',
      ''cat_1700000000000_r3'', ''cat_1700000000000_r4'']
   \<and> map cat_name (rows_of (categories (disk first_launch))) =
     [''Salary'', ''Food & Dining'', ''Transportation'', ''Shopping'', ''Entertainment'']"
  unfolding disk_first_launch
  by (simp add: seeded_def new_DatabaseService_def empty_database_def rows_of_def
       defaultCategories_def seed_category_def first_clock_text digits10.simps)

lemma first_settings:
  "map setting_key (rows_of (settings (disk first_launch))) =
     [''currency'', ''theme'', ''notifications'', ''firstLaunch'']"
  unfolding disk_first_launch
  by (simp add: seeded_def new_DatabaseService_def empty_database_def rows_of_def
       defaultSettings_def seed_setting_def)

lemma first_category_ids:
  "cat_id ` set (rows_of (categories (disk first_launch))) =
     {''cat_1700000000000_r0'', ''cat_1700000000000_r1'', ''cat_1700000000000_r2'',
      ''cat_1700000000000_r3'', ''cat_1700000000000_r4''}"
  using arg_cong[where f = set, OF conjunct1[OF first_categories]] by simp

lemma first_setting_keys:
  "setting_key ` set (rows_of (settings (disk first_launch))) =
     {''currency'', ''theme'', ''notifications'', ''firstLaunch''}"
  using arg_cong[where f = set, OF first_settings] by simp

text \<open>
  C1. Seeding twice should leave the rows of seeding once. It does for the settings,
  whose primary key is the setting's key. It does not for the categories: every run of
  \<^verbatim>\<open>insertDefaultCategories\<close> makes new ids, the id is the only key of the table, and
  \<^verbatim>\<open>INSERT OR IGNORE\<close> has nothing to ignore. After the second launch on the same
  database every default category is there twice.
\<close>

theorem second_launch_duplicates_categories:
  "map cat_name (stored_categories first_launch) =
     [''Salary'', ''Food & Dining'', ''Transportation'', ''Shopping'', ''Entertainment'']
   \<and> map cat_name (stored_categories second_launch) =
     [''Salary'', ''Food & Dining'', ''Transportation'', ''Shopping'', ''Entertainment'',
      ''Salary'', ''Food & Dining'', ''Transportation'', ''Shopping'', ''Entertainment'']
   \<and> map setting_key (stored_settings first_launch) =
     [''currency'', ''theme'', ''notifications'', ''firstLaunch'']
   \<and> map setting_key (stored_settings second_launch) =
     [''currency'', ''theme'', ''notifications'', ''firstLaunch'']"
proof -
  have c: "map cat_name (rows_of (categories (disk second_launch))) =
     [''Salary'', ''Food & Dining'', ''Transportation'', ''Shopping'', ''Entertainment'',
      ''Salary'', ''Food & Dining'', ''Transportation'', ''Shopping'', ''Entertainment'']"
    unfolding disk_second_launch
    by (simp add: seeded_def new_DatabaseService_def defaultCategories_def seed_category_def second_clock_text
         first_category_ids first_categories rows_of_Some digits10.simps)
  have k: "map setting_key (rows_of (settings (disk second_launch))) =
     [''currency'', ''theme'', ''notifications'', ''firstLaunch'']"
    unfolding disk_second_launch
    by (simp add: seeded_def new_DatabaseService_def defaultSettings_def seed_setting_def
         first_setting_keys first_settings rows_of_Some)
  show ?thesis
    unfolding stored_categories_def stored_settings_def
    using c k first_categories first_settings by simp
qed

subsection \<open>The query of getTransactions\<close>

lemma applies_truthy: "truthy v \<Longrightarrow> applies v P = P (or_else v [])"
  by (cases v) (auto simp: applies_def)

lemma applies_falsy: "\<not> truthy v \<Longrightarrow> applies v P"
  by (cases v) (auto simp: applies_def)

lemma bind_where_snoc:
  "bind_where cs vs = Some (p, []) \<Longrightarrow>
   \<exists>q. bind_where (cs @ [c]) (vs @ [v]) = Some (q, []) \<and> (\<forall>r. q r = (p r \<and> holds c (as_text v) r))"
proof (induction cs vs arbitrary: p rule: bind_where.induct)
  case (1 params)
  then show ?case by auto
next
  case (2 c cs)
  then show ?case by simp
next
  case (3 c' cs v' params)
  from "3.prems" obtain p' where b: "bind_where cs params = Some (p', [])"
      and p: "p = (\<lambda>r. holds c' (as_text v') r \<and> p' r)"
    by (auto split: option.splits)
  from "3.IH"[OF b] obtain q where "bind_where (cs @ [c]) (params @ [v]) = Some (q, [])"
      "\<forall>r. q r = (p' r \<and> holds c (as_text v) r)" by blast
  then show ?case by (auto simp: p)
qed

lemma bind_where_rest:
  "bind_where cs vs = Some (p, []) \<Longrightarrow> bind_where cs (vs @ rest) = Some (p, rest)"
  by (induction cs vs arbitrary: p rule: bind_where.induct) (auto split: option.splits)

lemma add_clause_bind:
  assumes "bind_where (fst qp) (snd qp) = Some (p, [])"
  shows "\<exists>q. bind_where (fst (add_clause v c qp)) (snd (add_clause v c qp)) = Some (q, [])
            \<and> (\<forall>r. q r = (p r \<and> applies v (\<lambda>t. holds c t r)))"
proof (cases "truthy v")
  case True
  from bind_where_snoc[OF assms, of c "Text (or_else v [])"] True show ?thesis
    by (auto simp: add_clause_def applies_truthy)
next
  case False
  with assms show ?thesis by (auto simp: add_clause_def applies_falsy)
qed

lemma build_query_bind:
  "\<exists>p. bind_where (fst (build_query limit offset fs)) (snd (build_query limit offset fs))
          = Some (p, [Integer limit, Integer offset])
       \<and> (\<forall>r. p r = matches fs r)"
proof -
  have 0: "bind_where (fst ([], [])) (snd ([], [])) = Some (\<lambda>r. True, [])" by simp
  from add_clause_bind[OF 0, of "filter_type fs" AND_type_eq] obtain p1 where
    1: "bind_where (fst (add_clause (filter_type fs) AND_type_eq ([], [])))
           (snd (add_clause (filter_type fs) AND_type_eq ([], []))) = Some (p1, [])"
    and p1: "\<forall>r. p1 r = (True \<and> applies (filter_type fs) (\<lambda>t. holds AND_type_eq t r))" by blast
  from add_clause_bind[OF 1, of "filter_category fs" AND_category_eq] obtain p2 where
    2: "bind_where (fst (add_clause (filter_category fs) AND_category_eq (add_clause (filter_type fs) AND_type_eq ([], []))))
           (snd (add_clause (filter_category fs) AND_category_eq (add_clause (filter_type fs) AND_type_eq ([], [])))) = Some (p2, [])"
    and p2: "\<forall>r. p2 r = (p1 r \<and> applies (filter_category fs) (\<lambda>t. holds AND_category_eq t r))" by blast
  from add_clause_bind[OF 2, of "filter_startDate fs" AND_date_ge] obtain p3 where
    3: "bind_where (fst (add_clause (filter_startDate fs) AND_date_ge (add_clause (filter_category fs) AND_category_eq (add_clause (filter_type fs) AND_type_eq ([], [])))))
           (snd (add_clause (filter_startDate fs) AND_date_ge (add_clause (filter_category fs) AND_category_eq (add_clause (filter_type fs) AND_type_eq ([], []))))) = Some (p3, [])"
    and p3: "\<forall>r. p3 r = (p2 r \<and> applies (filter_startDate fs) (\<lambda>t. holds AND_date_ge t r))" by blast
  from add_clause_bind[OF 3, of "filter_endDate fs" AND_date_le] obtain p4 where
    4: "bind_where (fst (add_clause (filter_endDate fs) AND_date_le (add_clause (filter_startDate fs) AND_date_ge (add_clause (filter_category fs) AND_category_eq (add_clause (filter_type fs) AND_type_eq ([], []))))))
           (snd (add_clause (filter_endDate fs) AND_date_le (add_clause (filter_startDate fs) AND_date_ge (add_clause (filter_category fs) AND_category_eq (add_clause (filter_type fs) AND_type_eq ([], [])))))) = Some (p4, [])"
    and p4: "\<forall>r. p4 r = (p3 r \<and> applies (filter_endDate fs) (\<lambda>t. holds AND_date_le t r))" by blast
  have "\<forall>r. p4 r = matches fs r"
    by (simp add: p4 p3 p2 p1 matches_def)
  moreover have "bind_where (fst (build_query limit offset fs)) (snd (build_query limit offset fs))
          = Some (p4, [Integer limit, Integer offset])"
    using bind_where_rest[OF 4, of "[Integer limit, Integer offset]"]
    by (simp add: build_query_def Let_def)
  ultimately show ?thesis by blast
qed

lemma getTransactions_ready:
  assumes "ready s"
  shows "getTransactions L limit offset fs s =
    (case traverse (from_row L)
            (LIMIT_OFFSET limit offset (ORDER_BY_DESC date (filter (matches fs) (stored_transactions s)))) of
       Inl e \<Rightarrow> Inr []
     | Inr txns \<Rightarrow> Inr txns, s)"
proof -
  obtain p where b: "bind_where (fst (build_query limit offset fs)) (snd (build_query limit offset fs))
          = Some (p, [Integer limit, Integer offset])" and p: "\<forall>r. p r = matches fs r"
    using build_query_bind by blast
  from p have f: "filter p rows = filter (matches fs) rows" for rows
    by (simp cong: filter_cong)
  from assms obtain rows where t: "transactions (disk s) = Some rows"
    by (auto simp: ready_def)
  have q: "executeSql L (SELECT_FROM_transactions (fst (build_query limit offset fs))
                                  (snd (build_query limit offset fs))) s
        = (Inr (LIMIT_OFFSET limit offset (ORDER_BY_DESC date (filter (matches fs) rows))), s)"
    by (simp add: executeSql_ready[OF assms] run_on_file_def SELECT_FROM_transactions_def
         table_def t b f)
  show ?thesis
    by (simp add: getTransactions_def and_then_def initialize_ready[OF assms] try_catch_def q
         lift_io_def return_io_def stored_transactions_def rows_of_def t split: sum.splits)
qed


lemma traverse_Inr: "traverse f xs = Inr ys \<longleftrightarrow> list_all2 (\<lambda>x y. f x = Inr y) xs ys"
proof (induction xs arbitrary: ys)
  case Nil
  show ?case by (cases ys) simp_all
next
  case (Cons x xs)
  show ?case
  proof (cases "f x")
    case (Inl e)
    then show ?thesis by (simp add: list_all2_Cons1)
  next
    case y: (Inr y)
    show ?thesis
    proof (cases "traverse f xs")
      case (Inl e)
      have "\<not> list_all2 (\<lambda>x y. f x = Inr y) xs zs" for zs
        using Cons.IH[of zs] Inl by simp
      with y Inl show ?thesis by (simp add: list_all2_Cons1)
    next
      case (Inr ws)
      have "list_all2 (\<lambda>x y. f x = Inr y) xs zs \<longleftrightarrow> zs = ws" for zs
        using Cons.IH[of zs] Inr by auto
      with y Inr show ?thesis by (auto simp add: list_all2_Cons1)
    qed
  qed
qed

lemma traverse_Inl: "traverse f xs = Inl e \<Longrightarrow> \<not> list_all (\<lambda>x. \<exists>y. f x = Inr y) xs"
  by (induction xs) (auto split: sum.splits)

lemma or_else_cases: "or_else column d = (case column of None \<Rightarrow> d | Some t \<Rightarrow> if t = [] then d else t)"
  by (cases column) simp_all

lemma Boolean_cases: "Boolean n = (n \<noteq> None \<and> n \<noteq> Some 0)"
  by (cases n) simp_all

lemma from_row_deserialized: "from_row L row = Inr t \<longleftrightarrow> deserialized L row t"
proof
  assume f: "from_row L row = Inr t"
  then obtain parsed_tags where 1: "json_parse L (or_else (tags row) ''[]'') = Inr parsed_tags"
    by (cases "json_parse L (or_else (tags row) ''[]'')") (simp_all add: from_row_def)
  with f obtain parsed_pattern
    where 2: "json_parse L (or_else (recurringPattern row) ''null'') = Inr parsed_pattern"
    by (cases "json_parse L (or_else (recurringPattern row) ''null'')") (simp_all add: from_row_def)
  let ?obj = "\<lparr> txn_id = txn_id row, amount = amount row, txn_type = txn_type row,
           category = category row, subcategory = subcategory row,
           description = description row, date = date row, account = account row,
           currency = currency row, tags = parsed_tags,
           location = location row, receipt = receipt row,
           recurring = Boolean (recurring row), recurringPattern = parsed_pattern,
           createdAt = createdAt row, updatedAt = updatedAt row \<rparr>"
  from f have "Transaction_fromJSON L ?obj = Inr t"
    by (simp add: from_row_def 1 2)
  moreover have "parsed_from L (tags row) ''[]'' (tags ?obj)"
      "parsed_from L (recurringPattern row) ''null'' (recurringPattern ?obj)"
    using 1 2 by (simp_all add: parsed_from_def or_else_cases)
  ultimately show "deserialized L row t"
    unfolding deserialized_def
    by (intro exI[of _ ?obj]) (simp add: Boolean_cases)
next
  assume "deserialized L row t"
  then obtain obj where o: "Transaction_fromJSON L obj = Inr t"
      "parsed_from L (tags row) ''[]'' (tags obj)"
      "parsed_from L (recurringPattern row) ''null'' (recurringPattern obj)"
      "recurring obj = (recurring row \<noteq> None \<and> recurring row \<noteq> Some 0)"
      "txn_id obj = txn_id row" "amount obj = amount row" "txn_type obj = txn_type row"
      "category obj = category row" "subcategory obj = subcategory row"
      "description obj = description row" "date obj = date row"
      "account obj = account row" "currency obj = currency row"
      "location obj = location row" "receipt obj = receipt row"
      "createdAt obj = createdAt row" "updatedAt obj = updatedAt row"
    unfolding deserialized_def by (elim exE conjE)
  have obj: "obj = \<lparr> txn_id = txn_id row, amount = amount row, txn_type = txn_type row,
           category = category row, subcategory = subcategory row,
           description = description row, date = date row, account = account row,
           currency = currency row, tags = tags obj,
           location = location row, receipt = receipt row,
           recurring = Boolean (recurring row), recurringPattern = recurringPattern obj,
           createdAt = createdAt row, updatedAt = updatedAt row \<rparr>"
    by (rule txn.equality) (simp_all add: o(4-17) Boolean_cases)
  from o(2,3) have "json_parse L (or_else (tags row) ''[]'') = Inr (tags obj)"
      "json_parse L (or_else (recurringPattern row) ''null'') = Inr (recurringPattern obj)"
    by (simp_all add: parsed_from_def or_else_cases)
  then show "from_row L row = Inr t"
    using o(1) obj by (simp add: from_row_def)
qed


lemma list_all2_ex: "list_all2 P xs ys \<Longrightarrow> list_all (\<lambda>x. \<exists>y. P x y) xs"
  by (induction rule: list_all2_induct) auto

text \<open>
  C6, as the code has it. On a working service \<^verbatim>\<open>getTransactions\<close> selects the
  stored transactions that satisfy the predicate of every key of \<^verbatim>\<open>filters\<close> with a
  non-empty value (type equality, category equality, date at or after \<^verbatim>\<open>startDate\<close>,
  date at or before \<^verbatim>\<open>endDate\<close>), orders them by date descending and takes the page
  given by limit and offset. It returns one transaction for each row of the page, in
  that order, made from the row with \<^verbatim>\<open>tags\<close> and \<^verbatim>\<open>recurringPattern\<close> parsed from
  their text and \<^verbatim>\<open>recurring\<close> a boolean. When a row of the page cannot be turned into
  a transaction (its text does not parse) the result is the empty list.
\<close>

theorem getTransactions_filtered_sorted_paged:
  assumes "working s"
  shows "\<exists>rows. mset rows = mset (filter (matches fs) (stored_transactions s))
      \<and> sorted_wrt (\<lambda>x y. date x \<ge> date y) rows
      \<and> (if list_all (deserializable L) (paginate limit offset rows)
         then \<exists>txns. fst (getTransactions L limit offset fs s) = Inr txns
                \<and> list_all2 (deserialized L) (paginate limit offset rows) txns
         else fst (getTransactions L limit offset fs s) = Inr [])"
proof -
  obtain s1 where i: "initialize L s = (Inr (), s1)" and r: "ready s1"
      and t: "stored_transactions s1 = stored_transactions s"
    using initialize_working[OF assms, of L] by blast
  let ?rows = "ORDER_BY_DESC date (filter (matches fs) (stored_transactions s))"
  let ?page = "paginate limit offset ?rows"
  have "getTransactions L limit offset fs s = getTransactions L limit offset fs s1"
    using i r by (simp add: getTransactions_def and_then_def initialize_ready)
  then have res: "fst (getTransactions L limit offset fs s) =
           (case traverse (from_row L) ?page of Inl e \<Rightarrow> Inr [] | Inr txns \<Rightarrow> Inr txns)"
    by (simp add: getTransactions_ready[OF r] t paginate_def LIMIT_OFFSET_def)
  have d: "deserializable L = (\<lambda>row. \<exists>t. from_row L row = Inr t)"
    by (rule ext) (simp add: deserializable_def from_row_deserialized)
  have page: "if list_all (deserializable L) ?page
         then \<exists>txns. fst (getTransactions L limit offset fs s) = Inr txns
                \<and> list_all2 (deserialized L) ?page txns
         else fst (getTransactions L limit offset fs s) = Inr []"
  proof (cases "traverse (from_row L) ?page")
    case (Inl e)
    from traverse_Inl[OF Inl] have "\<not> list_all (deserializable L) ?page"
      by (simp add: d)
    with Inl res show ?thesis by simp
  next
    case (Inr txns)
    then have "list_all2 (\<lambda>row t. from_row L row = Inr t) ?page txns"
      by (simp add: traverse_Inr)
    then have l: "list_all2 (deserialized L) ?page txns"
      by (simp add: from_row_deserialized)
    from list_all2_ex[OF l] have "list_all (deserializable L) ?page"
      by (simp add: deserializable_def[abs_def])
    with l Inr res show ?thesis by simp
  qed
  have "mset ?rows = mset (filter (matches fs) (stored_transactions s))"
    by (rule mset_ORDER_BY_DESC)
  moreover have "sorted_wrt (\<lambda>x y. date x \<ge> date y) ?rows"
    by (rule sorted_ORDER_BY_DESC)
  ultimately show ?thesis using page by (intro exI[of _ ?rows] conjI)
qed



theorem getTransactions_filtered_sorted_paged_witness:
  "working tagged_transactions
   \<and> (case fst (getTransactions test_libs 100 0 (no_filters\<lparr>filter_type := Some ''expense''\<rparr>)
                 tagged_transactions) of
         Inr txns \<Rightarrow> map (\<lambda>t. (txn_id t, tags t, recurring t, recurringPattern t)) txns
       | Inl e \<Rightarrow> [])
       = [(''t6'', JArray [], False, JNull),
          (''t5'', JArray [JString ''food'', JString ''lunch''], True,
           JObject [(''every'', JString ''month'')])]
   \<and> working broken_tags
   \<and> fst (getTransactions test_libs 100 0 no_filters broken_tags) = Inr []"
proof -
  have r: "ready tagged_transactions" "ready broken_tags"
    by (simp_all add: ready_def tagged_transactions_def broken_tags_def test_service_def)
  have w: "working tagged_transactions" "working broken_tags"
    unfolding tagged_transactions_def broken_tags_def by (rule working_test_service)+
  have 1: "(case fst (getTransactions test_libs 100 0 (no_filters\<lparr>filter_type := Some ''expense''\<rparr>)
                 tagged_transactions) of
         Inr txns \<Rightarrow> map (\<lambda>t. (txn_id t, tags t, recurring t, recurringPattern t)) txns
       | Inl e \<Rightarrow> [])
       = [(''t6'', JArray [], False, JNull),
          (''t5'', JArray [JString ''food'', JString ''lunch''], True,
           JObject [(''every'', JString ''month'')])]"
    unfolding getTransactions_ready[OF r(1)]
    by (simp add: tagged_transactions_def test_service_def test_row_def stored_transactions_def
         rows_of_def matches_def applies_def no_filters_def ORDER_BY_DESC_def LIMIT_OFFSET_def
         from_row_def test_libs_def json_texts_def)
  have 2: "fst (getTransactions test_libs 100 0 no_filters broken_tags) = Inr []"
    unfolding getTransactions_ready[OF r(2)]
    by (simp add: broken_tags_def test_service_def test_row_def stored_transactions_def
         rows_of_def matches_def applies_def no_filters_def ORDER_BY_DESC_def LIMIT_OFFSET_def
         from_row_def test_libs_def json_texts_def)
  show ?thesis
    using getTransactions_filtered_sorted_paged[OF w(1), of "no_filters\<lparr>filter_type := Some ''expense''\<rparr>"
        test_libs 100 0]
      getTransactions_filtered_sorted_paged[OF w(2), of no_filters test_libs 100 0]
    by (simp only: w 1 2 simp_thms)
qed

text \<open>
  C6 as stated fails for a key that is present with the empty string: with
  \<^verbatim>\<open>{type: ''}\<close> no stored transaction has that type, yet all three are returned.
\<close>

theorem getTransactions_empty_filter_counterexample:
  "map txn_id (filter (matches_present (no_filters\<lparr>filter_type := Some []\<rparr>))
                 (stored_transactions three_transactions)) = []
   \<and> (case fst (getTransactions test_libs 100 0 (no_filters\<lparr>filter_type := Some []\<rparr>)
                 three_transactions) of
         Inr txns \<Rightarrow> map txn_id txns | Inl e \<Rightarrow> [])
       = [''t2'', ''t1'', ''t3'']"
proof -
  have r: "ready three_transactions"
    by (simp add: ready_def three_transactions_def test_service_def)
  show ?thesis
    by (simp add: getTransactions_ready[OF r])
       (simp add: three_transactions_def test_service_def test_row_def stored_transactions_def
         rows_of_def matches_def applies_def matches_present_def present_def no_filters_def
         ORDER_BY_DESC_def LIMIT_OFFSET_def from_row_def test_libs_def json_texts_def)
qed

subsection \<open>Settings\<close>

lemma setSetting_ready:
  assumes "ready s"
  shows "setSetting L k v s =
    (Inr (), s\<lparr>disk := (disk s)\<lparr>settings :=
        Some (filter (\<lambda>r. setting_key r \<noteq> k) (stored_settings s)
              @ [\<lparr> setting_key = k, setting_value = v,
                    setting_updatedAt = date_toISOString L (clock s) \<rparr>])\<rparr>\<rparr>)"
proof -
  from assms obtain rows where t: "settings (disk s) = Some rows"
    by (auto simp: ready_def)
  show ?thesis
    by (simp add: setSetting_def and_then_def initialize_ready[OF assms] try_catch_def
         now_ISOString_def executeSql_ready[OF assms] run_on_file_def
         INSERT_OR_REPLACE_INTO_settings_def table_def t stored_settings_def rows_of_def)
qed

lemma getSetting_ready:
  assumes "ready s"
  shows "getSetting L k s =
    (Inr (case map setting_value (filter (\<lambda>r. setting_key r = k) (stored_settings s)) of
            [] \<Rightarrow> None | v # _ \<Rightarrow> Some v), s)"
proof -
  from assms obtain rows where t: "settings (disk s) = Some rows"
    by (auto simp: ready_def)
  show ?thesis
    by (simp add: getSetting_def and_then_def initialize_ready[OF assms] try_catch_def
         executeSql_ready[OF assms] run_on_file_def return_io_def
         SELECT_value_FROM_settings_def table_def t stored_settings_def rows_of_def)
qed

text \<open>
  C7. On a working service, after \<^verbatim>\<open>setSetting(k, v)\<close> there is exactly one settings
  row with key \<open>k\<close>, holding \<open>v\<close>; after a second \<^verbatim>\<open>setSetting(k, v)\<close> at a later time
  \<open>t\<close> there is still exactly one, holding \<open>v\<close> with \<^verbatim>\<open>updatedAt\<close> refreshed, and
  \<^verbatim>\<open>getSetting(k)\<close> returns \<open>v\<close>.
\<close>

theorem setSetting_twice:
  assumes "working s"
  shows "let s1 = snd (setSetting L k v s);
             s2 = snd (setSetting L k v (s1\<lparr>clock := t\<rparr>))
         in filter (\<lambda>r. setting_key r = k) (stored_settings s1)
              = [\<lparr> setting_key = k, setting_value = v,
                    setting_updatedAt = date_toISOString L (clock s) \<rparr>]
          \<and> filter (\<lambda>r. setting_key r = k) (stored_settings s2)
              = [\<lparr> setting_key = k, setting_value = v,
                    setting_updatedAt = date_toISOString L t \<rparr>]
          \<and> fst (getSetting L k s2) = Inr (Some v)"
proof -
  obtain s0 where i: "initialize L s = (Inr (), s0)" and r: "ready s0"
      and c: "clock s0 = clock s"
    using initialize_working[OF assms, of L] by blast
  have e: "setSetting L k v s = setSetting L k v s0"
    using i r by (simp add: setSetting_def and_then_def initialize_ready)
  let ?row = "\<lambda>now. \<lparr> setting_key = k, setting_value = v, setting_updatedAt = date_toISOString L now \<rparr>"
  let ?s1 = "s0\<lparr>disk := (disk s0)\<lparr>settings :=
        Some (filter (\<lambda>r. setting_key r \<noteq> k) (stored_settings s0) @ [?row (clock s)])\<rparr>\<rparr>"
  have s1: "snd (setSetting L k v s) = ?s1"
    by (simp add: e setSetting_ready[OF r] c)
  have r1: "ready (?s1\<lparr>clock := t\<rparr>)"
    using r by (simp add: ready_def)
  let ?s2 = "(?s1\<lparr>clock := t\<rparr>)\<lparr>disk := (disk (?s1\<lparr>clock := t\<rparr>))\<lparr>settings :=
        Some (filter (\<lambda>r. setting_key r \<noteq> k) (stored_settings (?s1\<lparr>clock := t\<rparr>)) @ [?row t])\<rparr>\<rparr>"
  have s2: "snd (setSetting L k v (?s1\<lparr>clock := t\<rparr>)) = ?s2"
    by (simp add: setSetting_ready[OF r1])
  have r2: "ready ?s2"
    using r by (simp add: ready_def)
  have f1: "filter (\<lambda>r. setting_key r = k) (stored_settings ?s1) = [?row (clock s)]"
    by (simp add: stored_settings_def rows_of_def filter_empty_conv)
  have f2: "filter (\<lambda>r. setting_key r = k) (stored_settings ?s2) = [?row t]"
    by (simp add: stored_settings_def rows_of_def filter_empty_conv)
  have g: "fst (getSetting L k ?s2) = Inr (Some v)"
    by (simp only: getSetting_ready[OF r2] f2) simp
  show ?thesis
    unfolding Let_def s1 s2 using f1 f2 g by blast
qed

theorem setSetting_twice_witness:
  "working fresh_install
   \<and> fst (getSetting test_libs ''theme''
           (snd (setSetting test_libs ''theme'' ''dark''
              ((snd (setSetting test_libs ''theme'' ''dark'' fresh_install))\<lparr>clock := 1700000005000\<rparr>))))
       = Inr (Some ''dark'')"
proof -
  have w: "working fresh_install"
    by (simp add: working_def fresh_install_def new_DatabaseService_def)
  show ?thesis
    using setSetting_twice[OF w, of test_libs "''theme''" "''dark''" 1700000005000]
    by (simp add: w Let_def)
qed

subsection \<open>Failures of the store\<close>

lemma no_throw_initialize: "no_throw (initialize L)"
  unfolding no_throw_def initialize_def try_catch_def modify_def
  by (auto split: prod.splits sum.splits)

lemma no_throw_guarded:
  "no_throw (and_then (initialize L) (\<lambda>_. try_catch m (\<lambda>e. return_io d)))"
proof -
  have "\<exists>x s'. and_then (initialize L) (\<lambda>_. try_catch m (\<lambda>e. return_io d)) s = (Inr x, s')" for s
  proof -
    obtain s1 where i: "initialize L s = (Inr (), s1)"
      using no_throw_initialize[of L] unfolding no_throw_def by (metis old.unit.exhaust)
    show ?thesis
      by (cases "m s1"; cases "fst (m s1)")
         (auto simp: and_then_def i try_catch_def return_io_def)
  qed
  then show ?thesis unfolding no_throw_def by blast
qed

lemma guarded_default:
  assumes "isl (fst (m (snd (initialize L s))))"
  shows "fst (and_then (initialize L) (\<lambda>_. try_catch m (\<lambda>e. return_io d)) s) = Inr d"
proof -
  obtain s1 where i: "initialize L s = (Inr (), s1)"
    using no_throw_initialize[of L] unfolding no_throw_def by (metis old.unit.exhaust)
  with assms have "isl (fst (m s1))" by simp
  then show ?thesis
    by (cases "m s1"; cases "fst (m s1)")
       (auto simp: and_then_def i try_catch_def return_io_def)
qed

lemma isl_and_then: "isl (fst (m s)) \<Longrightarrow> isl (fst (and_then m k s))"
  by (cases "m s"; cases "fst (m s)") (auto simp: and_then_def)

lemma executeSql_args_Inr: "executeSql_args L (Inr stmt) = executeSql L stmt"
  by (simp add: executeSql_def)

lemma initialize_unopenable:
  "initialize L unopenable = (Inr (), unopenable\<lparr>isInitialized := True\<rparr>)"
  by (simp add: unopenable_def new_DatabaseService_def initialize_def try_catch_def and_then_def
       openDatabase_def modify_def)

lemma executeSql_args_unopenable:
  "executeSql_args L args (snd (initialize L unopenable)) =
     (Inl (null_read_error L ''executeSql''), snd (initialize L unopenable))"
  by (simp add: initialize_unopenable executeSql_args_def)
     (simp add: unopenable_def new_DatabaseService_def)

text \<open>
  C4. \<^verbatim>\<open>initialize\<close>, \<^verbatim>\<open>getTransactions\<close>, \<^verbatim>\<open>getTransactionSummary\<close>,
  \<^verbatim>\<open>getCategoryBreakdown\<close>, \<^verbatim>\<open>getMonthlyTrends\<close>, \<^verbatim>\<open>getSetting\<close> and
  \<^verbatim>\<open>setSetting\<close> never throw, whatever the store does. When the store call of a read
  fails (after the lazy initialization), the read returns its default: the empty list,
  the zero summary, or \<^verbatim>\<open>null\<close>. \<^verbatim>\<open>addTransaction\<close> throws every error of its
  body to the caller, unchanged, whether it was given a \<^verbatim>\<open>Transaction\<close> or plain data:
  the error the constructor threw on the plain data, the error the \<^verbatim>\<open>INSERT\<close> failed
  with, the RangeError of an invalid date among the parameters, and, when no database
  was opened, the TypeError of reading \<^verbatim>\<open>executeSql\<close> from \<^verbatim>\<open>null\<close>, which comes before
  the parameters are evaluated.
\<close>

theorem error_policy:
  "no_throw (initialize L)
   \<and> no_throw (getTransactions L limit offset fs)
   \<and> no_throw (getTransactionSummary L startDate endDate)
   \<and> no_throw (getCategoryBreakdown L ty startDate endDate)
   \<and> no_throw (getMonthlyTrends L months)
   \<and> no_throw (getSetting L k)
   \<and> no_throw (setSetting L k v)
   \<and> (isl (fst (executeSql L (SELECT_FROM_transactions (fst (build_query limit offset fs))
                                   (snd (build_query limit offset fs))) (snd (initialize L s))))
        \<longrightarrow> fst (getTransactions L limit offset fs s) = Inr [])
   \<and> (isl (fst (executeSql L (SELECT_type_SUM_amount L startDate endDate) (snd (initialize L s))))
        \<longrightarrow> fst (getTransactionSummary L startDate endDate s) = Inr zero_summary)
   \<and> (isl (fst (executeSql L (SELECT_category_SUM_COUNT L ty startDate endDate) (snd (initialize L s))))
        \<longrightarrow> fst (getCategoryBreakdown L ty startDate endDate s) = Inr [])
   \<and> ((case toISOString (months_before L (clock (snd (initialize L s))) months) of
          Inl e \<Rightarrow> True
        | Inr d \<Rightarrow> isl (fst (executeSql L (SELECT_month_type_SUM L d) (snd (initialize L s)))))
        \<longrightarrow> fst (getMonthlyTrends L months s) = Inr [])
   \<and> (isl (fst (executeSql L (SELECT_value_FROM_settings k) (snd (initialize L s))))
        \<longrightarrow> fst (getSetting L k s) = Inr None)
   \<and> (as_Transaction L input = Inl e
        \<longrightarrow> fst (addTransaction L input s) = Inl e)
   \<and> (as_Transaction L input = Inr txn \<and> insert_params L txn = Inr row
        \<and> fst (executeSql L (INSERT_INTO_transactions row) (snd (initialize L s))) = Inl e
        \<longrightarrow> fst (addTransaction L input s) = Inl e)
   \<and> (as_Transaction L input = Inr txn \<and> insert_params L txn = Inl e
        \<and> db (snd (initialize L s)) \<noteq> None
        \<longrightarrow> fst (addTransaction L input s) = Inl e)
   \<and> (as_Transaction L input = Inr txn \<and> db (snd (initialize L s)) = None
        \<longrightarrow> fst (addTransaction L input s) = Inl (null_read_error L ''executeSql''))"
proof -
  obtain s1 where i: "initialize L s = (Inr (), s1)"
    using no_throw_initialize[of L] unfolding no_throw_def by (metis old.unit.exhaust)
  have trends: "fst (getMonthlyTrends L months s) = Inr []"
    if "case toISOString (months_before L (clock (snd (initialize L s))) months) of
          Inl e \<Rightarrow> True
        | Inr d \<Rightarrow> isl (fst (executeSql L (SELECT_month_type_SUM L d) (snd (initialize L s))))"
    unfolding getMonthlyTrends_def
  proof (rule guarded_default)
    show "isl (fst (executeSql_args L
                (chain (toISOString (months_before L (clock (snd (initialize L s))) months))
                   (\<lambda>startDate. Inr (SELECT_month_type_SUM L startDate)))
                (snd (initialize L s))))"
    proof (cases "toISOString (months_before L (clock (snd (initialize L s))) months)")
      case (Inl e)
      then show ?thesis by (simp add: executeSql_args_def split: option.splits)
    next
      case (Inr d)
      with that show ?thesis by (simp add: executeSql_args_Inr)
    qed
  qed
  have body: "fst (addTransaction L input s) =
      (case as_Transaction L input of
         Inl e \<Rightarrow> Inl e
       | Inr txn \<Rightarrow>
           (case fst (executeSql_args L
                        (chain (insert_params L txn) (\<lambda>row. Inr (INSERT_INTO_transactions row))) s1) of
              Inl e \<Rightarrow> Inl e
            | Inr u \<Rightarrow> Inr txn))"
    by (auto simp: addTransaction_def and_then_def i try_catch_def lift_io_def throw_io_def
          return_io_def split: sum.splits prod.splits)
  have add1: "fst (addTransaction L input s) = Inl e" if "as_Transaction L input = Inl e"
    using that by (simp add: body)
  have add2: "fst (addTransaction L input s) = Inl e"
    if "as_Transaction L input = Inr txn" "insert_params L txn = Inr row"
      "fst (executeSql L (INSERT_INTO_transactions row) (snd (initialize L s))) = Inl e"
    using that by (simp add: body i executeSql_args_Inr)
  have add3: "fst (addTransaction L input s) = Inl e"
    if "as_Transaction L input = Inr txn" "insert_params L txn = Inl e"
      "db (snd (initialize L s)) \<noteq> None"
    using that by (auto simp: body i executeSql_args_def)
  have add4: "fst (addTransaction L input s) = Inl (null_read_error L ''executeSql'')"
    if "as_Transaction L input = Inr txn" "db (snd (initialize L s)) = None"
    using that by (simp add: body i executeSql_args_def)
  have total: "no_throw (getTransactions L limit offset fs)"
      "no_throw (getTransactionSummary L startDate endDate)"
      "no_throw (getCategoryBreakdown L ty startDate endDate)"
      "no_throw (getMonthlyTrends L months)"
      "no_throw (getSetting L k)"
      "no_throw (setSetting L k v)"
    by (simp_all add: getTransactions_def getTransactionSummary_def getCategoryBreakdown_def
          getMonthlyTrends_def getSetting_def setSetting_def no_throw_guarded)
  have defaults:
      "isl (fst (executeSql L (SELECT_FROM_transactions (fst (build_query limit offset fs))
                                   (snd (build_query limit offset fs))) (snd (initialize L s))))
        \<Longrightarrow> fst (getTransactions L limit offset fs s) = Inr []"
      "isl (fst (executeSql L (SELECT_type_SUM_amount L startDate endDate) (snd (initialize L s))))
        \<Longrightarrow> fst (getTransactionSummary L startDate endDate s) = Inr zero_summary"
      "isl (fst (executeSql L (SELECT_category_SUM_COUNT L ty startDate endDate) (snd (initialize L s))))
        \<Longrightarrow> fst (getCategoryBreakdown L ty startDate endDate s) = Inr []"
      "isl (fst (executeSql L (SELECT_value_FROM_settings k) (snd (initialize L s))))
        \<Longrightarrow> fst (getSetting L k s) = Inr None"
    by (simp_all add: getTransactions_def getTransactionSummary_def getCategoryBreakdown_def
          getSetting_def guarded_default isl_and_then)
  show ?thesis
    using no_throw_initialize[of L] total defaults trends add1 add2 add3 add4 by blast
qed


lemma initialize_test_service: "initialize L (test_service rows) = (Inr (), test_service rows)"
  by (simp add: initialize_def test_service_def)

lemma initialize_failing_store: "initialize L failing_store = (Inr (), failing_store)"
  by (simp add: initialize_def failing_store_def test_service_def)

theorem error_policy_witness:
  "fst (getTransactions test_libs 100 0 no_filters unopenable) = Inr []
   \<and> fst (getTransactionSummary test_libs ''2024-01-01'' ''2024-12-31'' unopenable) = Inr zero_summary
   \<and> fst (getCategoryBreakdown test_libs ''expense'' ''2024-01-01'' ''2024-12-31'' unopenable) = Inr []
   \<and> fst (getMonthlyTrends test_libs 6 unopenable) = Inr []
   \<and> fst (getSetting test_libs ''theme'' unopenable) = Inr None
   \<and> null_read_error test_libs ''executeSql''
       = TypeError (''Cannot read properties of null (reading '' @ [CHR 0x27] @ ''executeSql''
                    @ [CHR 0x27] @ '')'')
   \<and> fst (addTransaction test_libs (Instance test_transaction) unopenable)
       = Inl (null_read_error test_libs ''executeSql'')
   \<and> fst (addTransaction test_libs (Data plain_data) unopenable)
       = Inl (null_read_error test_libs ''executeSql'')
   \<and> fst (addTransaction test_libs (Instance (test_transaction\<lparr>date := InvalidDate\<rparr>)) unopenable)
       = Inl (null_read_error test_libs ''executeSql'')
   \<and> fst (addTransaction test_libs (Instance (test_transaction\<lparr>date := InvalidDate\<rparr>))
            three_transactions)
       = Inl (RangeError ''Invalid time value'')
   \<and> fst (addTransaction test_libs (Data plain_data) three_transactions)
       = Inl (Error ''UNIQUE constraint failed: transactions.id'')
   \<and> fst (addTransaction test_libs (Data JNull) three_transactions)
       = Inl (TypeError ''Cannot read properties of undefined'')
   \<and> fst (addTransaction test_libs (Instance test_transaction) failing_store)
       = Inl (Error ''disk I/O error'')
   \<and> fst (getTransactions test_libs 100 0 no_filters failing_store) = Inr []"
proof -
  let ?undated = "test_transaction\<lparr>date := InvalidDate\<rparr>"
  have closed: "isl (fst (executeSql test_libs stmt (snd (initialize test_libs unopenable))))" for stmt :: "'a sql"
    by (simp add: executeSql_def executeSql_args_unopenable)
  have month: "toISOString (months_before test_libs c 6) = Inr (''T'' @ number_toString (c - 6 * 2592000000))" for c
    by (simp add: test_libs_def)
  have nodb: "db (snd (initialize test_libs unopenable)) = None"
    by (simp add: initialize_unopenable) (simp add: unopenable_def new_DatabaseService_def)
  have reads: "fst (getTransactions test_libs 100 0 no_filters unopenable) = Inr []"
      "fst (getTransactionSummary test_libs ''2024-01-01'' ''2024-12-31'' unopenable) = Inr zero_summary"
      "fst (getCategoryBreakdown test_libs ''expense'' ''2024-01-01'' ''2024-12-31'' unopenable) = Inr []"
      "fst (getMonthlyTrends test_libs 6 unopenable) = Inr []"
      "fst (getSetting test_libs ''theme'' unopenable) = Inr None"
      "fst (addTransaction test_libs (Instance test_transaction) unopenable)
         = Inl (null_read_error test_libs ''executeSql'')"
    using error_policy[where L = test_libs and s = unopenable and limit = 100 and offset = 0
        and fs = no_filters and startDate = "''2024-01-01''" and endDate = "''2024-12-31''"
        and ty = "''expense''" and months = 6 and k = "''theme''"
        and input = "Instance test_transaction" and txn = test_transaction]
    by (simp_all add: closed month nodb as_Transaction_def)
  have data: "as_Transaction test_libs (Data plain_data) =
      Inr \<lparr> txn_id = ''t1'', amount = Finite 5, txn_type = ''expense'', category = None,
            subcategory = None, description = None, date = ValidDate ''2024-02-03T10:00:00.000Z'',
            account = Some ''main'', currency = Some ''USD'', tags = JArray [], location = None,
            receipt = None, recurring = False, recurringPattern = JNull,
            createdAt = ValidDate ''T0'', updatedAt = ValidDate ''T0'' \<rparr>"
    by (simp add: as_Transaction_def plain_data_def test_libs_def)
  have 2: "fst (addTransaction test_libs (Data plain_data) unopenable)
         = Inl (null_read_error test_libs ''executeSql'')"
    using error_policy[where L = test_libs and s = unopenable and input = "Data plain_data"]
    by (simp add: nodb data)
  have 3: "fst (addTransaction test_libs (Instance ?undated) unopenable)
         = Inl (null_read_error test_libs ''executeSql'')"
    using error_policy[where L = test_libs and s = unopenable and input = "Instance ?undated"]
    by (simp add: nodb as_Transaction_def)
  have i3: "snd (initialize test_libs three_transactions) = three_transactions"
    by (simp add: three_transactions_def initialize_test_service)
  have db3: "db three_transactions \<noteq> None"
    by (simp add: three_transactions_def test_service_def)
  have 4: "fst (addTransaction test_libs (Instance ?undated) three_transactions)
         = Inl (RangeError ''Invalid time value'')"
    using error_policy[where L = test_libs and s = three_transactions and input = "Instance ?undated"
        and txn = ?undated and e = "RangeError ''Invalid time value''"]
    by (simp add: i3 db3 as_Transaction_def insert_params_def)
  let ?t1 = "\<lparr> txn_id = ''t1'', amount = Finite 5, txn_type = ''expense'', category = None,
            subcategory = None, description = None, date = ValidDate ''2024-02-03T10:00:00.000Z'',
            account = Some ''main'', currency = Some ''USD'', tags = JArray [], location = None,
            receipt = None, recurring = False, recurringPattern = JNull,
            createdAt = ValidDate ''T0'', updatedAt = ValidDate ''T0'' \<rparr>"
  obtain row where row: "insert_params test_libs ?t1 = Inr row" "txn_id row = ''t1''"
    by (simp add: insert_params_def)
  have dup: "fst (executeSql test_libs (INSERT_INTO_transactions row) three_transactions)
      = Inl (Error ''UNIQUE constraint failed: transactions.id'')"
    by (simp add: executeSql_def executeSql_args_def run_on_file_def INSERT_INTO_transactions_def
          table_def three_transactions_def test_service_def test_row_def row(2))
  have 5: "fst (addTransaction test_libs (Data plain_data) three_transactions)
         = Inl (Error ''UNIQUE constraint failed: transactions.id'')"
    using error_policy[where L = test_libs and s = three_transactions and input = "Data plain_data"
        and txn = ?t1 and row = row and e = "Error ''UNIQUE constraint failed: transactions.id''"]
    by (simp add: i3 data row(1) dup)
  have 6: "fst (addTransaction test_libs (Data JNull) three_transactions)
         = Inl (TypeError ''Cannot read properties of undefined'')"
    using error_policy[where L = test_libs and s = three_transactions and input = "Data JNull"
        and e = "TypeError ''Cannot read properties of undefined''"]
    by (simp add: as_Transaction_def test_libs_def)
  have fail: "fst (executeSql test_libs stmt (snd (initialize test_libs failing_store)))
      = Inl (Error ''disk I/O error'')" for stmt :: "'a sql"
    by (simp add: initialize_failing_store executeSql_def executeSql_args_def)
       (simp add: failing_store_def test_service_def)
  have 7: "fst (addTransaction test_libs (Instance test_transaction) failing_store)
         = Inl (Error ''disk I/O error'')"
      "fst (getTransactions test_libs 100 0 no_filters failing_store) = Inr []"
    using error_policy[where L = test_libs and s = failing_store and limit = 100 and offset = 0
        and fs = no_filters and input = "Instance test_transaction" and txn = test_transaction
        and e = "Error ''disk I/O error''"]
    by (simp_all add: fail as_Transaction_def insert_params_def test_transaction_def)
  have msg: "null_read_error test_libs ''executeSql''
       = TypeError (''Cannot read properties of null (reading '' @ [CHR 0x27] @ ''executeSql''
                    @ [CHR 0x27] @ '')'')"
    by (simp add: test_libs_def)
  from reads msg 2 3 4 5 6 7 show ?thesis by simp
qed

section \<open>Properties of AuthService\<close>

lemma generateEncryptionKey_no_throw: "\<exists>key s'. generateEncryptionKey s = (Inr key, s')"
  unfolding generateEncryptionKey_def try_catch_def
  by (auto split: prod.splits sum.splits)

lemma generateEncryptionKey_stored:
  assumes "storage_faults s = []" and "random_keys s (key_draws s) \<noteq> []"
  shows "\<exists>key s'. generateEncryptionKey s = (Inr key, s') \<and> key \<noteq> []
           \<and> map_of (items s') ''encryptionKey'' = Some key \<and> storage_faults s' = []"
  using assms
  by (auto simp: generateEncryptionKey_def try_catch_def and_then_def getItem_def setItem_def
       storage_call_def new_key_def return_io_def update_conv split: option.splits if_splits)

lemma generateEncryptionKey_reads:
  assumes "storage_faults s = []" and "map_of (items s) ''encryptionKey'' = Some key" and "key \<noteq> []"
  shows "generateEncryptionKey s = (Inr key, s)"
  using assms
  by (simp add: generateEncryptionKey_def try_catch_def and_then_def getItem_def
       storage_call_def return_io_def)

text \<open>
  C3. Encrypting a serializable value and decrypting the result gives the value back,
  when both calls see the same stored key: the storage does not fail, a freshly drawn
  key is not empty, the cipher round-trips the serialized value under every key, and
  the value survives \<^verbatim>\<open>JSON.stringify\<close> followed by \<^verbatim>\<open>JSON.parse\<close>. The decryption
  may happen at any later time and in any service whose storage holds the key that the
  encryption left there; in particular right after the encryption.
\<close>

theorem encrypt_then_decrypt:
  assumes "storage_faults s = []" and "random_keys s (key_draws s) \<noteq> []"
    and "\<forall>key. aes_roundtrips L (json_stringify L x) key"
    and "json_parse L (json_stringify L x) = Inr x"
    and "storage_faults later = []"
    and "map_of (items later) ''encryptionKey''
           = map_of (items (snd (encryptData L x s))) ''encryptionKey''"
  shows "chain (fst (encryptData L x s)) (\<lambda>encrypted. fst (decryptData L encrypted later)) = Inr x
       \<and> fst (and_then (encryptData L x) (decryptData L) s) = Inr x"
proof -
  obtain key s' where k: "generateEncryptionKey s = (Inr key, s')" "key \<noteq> []"
     "map_of (items s') ''encryptionKey'' = Some key" "storage_faults s' = []"
    using generateEncryptionKey_stored[OF assms(1,2)] by blast
  from assms(3) have "aes_roundtrips L (json_stringify L x) key" by blast
  then obtain c where c: "aes_encrypt L (json_stringify L x) key = Inr c"
     "chain (aes_decrypt L c key) (utf8_toString L) = Inr (json_stringify L x)"
    by (cases "aes_encrypt L (json_stringify L x) key") (auto simp: aes_roundtrips_def)
  have e: "encryptData L x s = (Inr c, s')"
    by (simp add: encryptData_def try_catch_def and_then_def lift_io_def k c)
  from c(2) obtain b where b: "aes_decrypt L c key = Inr b"
      "utf8_toString L b = Inr (json_stringify L x)"
    by (cases "aes_decrypt L c key") auto
  have d: "decryptData L c s2 = (Inr x, s2)"
    if "storage_faults s2 = []" "map_of (items s2) ''encryptionKey'' = Some key" for s2
    by (simp add: decryptData_def try_catch_def and_then_def lift_io_def
          generateEncryptionKey_reads[OF that k(2)] b assms(4))
  from assms(6) have "map_of (items later) ''encryptionKey'' = Some key"
    by (simp add: e k(3))
  from d[OF assms(5) this] d[OF k(4,3)] show ?thesis
    by (simp add: and_then_def e)
qed

lemma generateEncryptionKey_test_auth:
  "generateEncryptionKey test_auth =
     (Inr ''5f2a0'', test_auth\<lparr>key_draws := 1, items := [(''encryptionKey'', ''5f2a0'')]\<rparr>)"
  by (simp add: generateEncryptionKey_def try_catch_def and_then_def getItem_def setItem_def
       storage_call_def new_key_def return_io_def test_auth_def new_AuthService_def
       digits10.simps)

lemma encryptData_test_auth:
  "encryptData test_libs x test_auth =
     (Inr (''5f2a0'' @ json_stringify test_libs x),
      test_auth\<lparr>key_draws := 1, items := [(''encryptionKey'', ''5f2a0'')]\<rparr>)"
  by (simp add: encryptData_def try_catch_def and_then_def lift_io_def
       generateEncryptionKey_test_auth)
     (simp add: test_libs_def)

theorem encrypt_then_decrypt_witness:
  "storage_faults test_auth = [] \<and> random_keys test_auth (key_draws test_auth) \<noteq> []
   \<and> storage_faults later_session = []
   \<and> map_of (items later_session) ''encryptionKey''
        = map_of (items (snd (encryptData test_libs nested_value test_auth))) ''encryptionKey''
   \<and> (\<forall>key. aes_roundtrips test_libs (json_stringify test_libs nested_value) key)
   \<and> json_parse test_libs (json_stringify test_libs nested_value) = Inr nested_value
   \<and> chain (fst (encryptData test_libs nested_value test_auth))
        (\<lambda>encrypted. fst (decryptData test_libs encrypted later_session)) = Inr nested_value
   \<and> chain (fst (encryptData test_libs (JArray []) test_auth))
        (\<lambda>encrypted. fst (decryptData test_libs encrypted later_session)) = Inr (JArray [])
   \<and> chain (fst (encryptData test_libs (JString []) test_auth))
        (\<lambda>encrypted. fst (decryptData test_libs encrypted later_session)) = Inr (JString [])
   \<and> chain (fst (encryptData test_libs (JObject []) test_auth))
        (\<lambda>encrypted. fst (decryptData test_libs encrypted later_session)) = Inr (JObject [])"
proof -
  have h: "storage_faults test_auth = []" "random_keys test_auth (key_draws test_auth) \<noteq> []"
      "storage_faults later_session = []"
    by (simp_all add: test_auth_def later_session_def new_AuthService_def)
  have key: "map_of (items later_session) ''encryptionKey''
        = map_of (items (snd (encryptData test_libs x test_auth))) ''encryptionKey''" for x
    by (simp add: encryptData_test_auth later_session_def new_AuthService_def)
  have aes: "aes_roundtrips test_libs m k" for m k
    by (simp add: aes_roundtrips_def test_libs_def)
  have json: "json_parse test_libs (json_stringify test_libs nested_value) = Inr nested_value"
      "json_parse test_libs (json_stringify test_libs (JArray [])) = Inr (JArray [])"
      "json_parse test_libs (json_stringify test_libs (JString [])) = Inr (JString [])"
      "json_parse test_libs (json_stringify test_libs (JObject [])) = Inr (JObject [])"
    by (simp_all add: test_libs_def json_texts_def nested_value_def)
  from encrypt_then_decrypt[OF h(1,2) _ json(1) h(3) key]
    encrypt_then_decrypt[OF h(1,2) _ json(2) h(3) key]
    encrypt_then_decrypt[OF h(1,2) _ json(3) h(3) key]
    encrypt_then_decrypt[OF h(1,2) _ json(4) h(3) key]
  show ?thesis
    by (simp only: aes h key json simp_thms)
qed

text \<open>
  C5. When the read of \<^verbatim>\<open>userPIN\<close> from the encrypted storage finds nothing,
  \<^verbatim>\<open>authenticateWithPIN\<close> answers every pin with the failure \<^verbatim>\<open>No PIN set up\<close>,
  never with \<^verbatim>\<open>Incorrect PIN\<close>, and \<^verbatim>\<open>isAuthenticated\<close> is what it was.
\<close>

theorem authenticateWithPIN_no_pin:
  assumes "fst (getItem ''userPIN'' s) = Inr None"
  shows "fst (authenticateWithPIN L pin s) = Inr (Failure ''No PIN set up'')
       \<and> fst (authenticateWithPIN L pin s) \<noteq> Inr (Failure ''Incorrect PIN'')
       \<and> isAuthenticated (snd (authenticateWithPIN L pin s)) = isAuthenticated s"
  using assms
  by (auto simp: authenticateWithPIN_def try_catch_def and_then_def return_io_def getItem_def
      storage_call_def split: list.splits option.splits prod.splits sum.splits)

theorem authenticateWithPIN_no_pin_witness:
  "fst (getItem ''userPIN'' test_auth) = Inr None
   \<and> fst (authenticateWithPIN test_libs ''1234'' test_auth) = Inr (Failure ''No PIN set up'')
   \<and> isAuthenticated (snd (authenticateWithPIN test_libs ''1234'' test_auth))
       = isAuthenticated test_auth"
  using authenticateWithPIN_no_pin[of test_auth test_libs "''1234''"]
  by (simp add: getItem_def storage_call_def test_auth_def new_AuthService_def)

text \<open>
  C8. One tick of the session check, run every 30000 ms: afterwards the user is
  authenticated exactly if they were before and the time since the last activity does
  not exceed the session timeout. The tick is a logout when it was exceeded and
  changes nothing otherwise. A new service has a timeout of 5 minutes.
\<close>

theorem session_check_tick:
  "isAuthenticated (session_check s) =
     (isAuthenticated s \<and> \<not> (date_now s - lastActivity s > sessionTimeout s))
   \<and> session_check s =
       (if isAuthenticated s \<and> date_now s - lastActivity s > sessionTimeout s
        then logout s else s)
   \<and> isAuthenticated (logout s) = False
   \<and> sessionTimeout (new_AuthService stored faults now rnd) = 5 * 60 * 1000
   \<and> sessionTimer (startSessionTimer s) = Some 30000"
  by (auto simp add: session_check_def logout_def clearSessionTimer_def new_AuthService_def
     startSessionTimer_def split: option.splits)

text \<open>
  C9. \<^verbatim>\<open>decryptData\<close> never throws. With the key \<^verbatim>\<open>generateEncryptionKey\<close>
  yields, its result is the parsed decryption when decrypting, decoding and parsing
  all succeed; otherwise the input itself parsed as JSON; and \<^verbatim>\<open>null\<close> when that
  fails too.
\<close>

theorem decryptData_never_throws:
  "\<exists>key s'. generateEncryptionKey s = (Inr key, s') \<and>
     decryptData L encryptedData s =
       (Inr (case chain (chain (aes_decrypt L encryptedData key) (utf8_toString L)) (json_parse L) of
               Inr v \<Rightarrow> v
             | Inl e \<Rightarrow> (case json_parse L encryptedData of Inr v \<Rightarrow> v | Inl e' \<Rightarrow> JNull)), s')"
proof -
  obtain key s' where k: "generateEncryptionKey s = (Inr key, s')"
    using generateEncryptionKey_no_throw by blast
  show ?thesis
    by (rule exI[of _ key], rule exI[of _ s'])
       (cases "aes_decrypt L encryptedData key";
        cases "utf8_toString L (projr (aes_decrypt L encryptedData key))";
        simp add: k decryptData_def try_catch_def and_then_def lift_io_def return_io_def
          split: sum.splits)
qed

text \<open>
  C10. With an \<^verbatim>\<open>authMethod\<close> other than \<^verbatim>\<open>none\<close> and \<^verbatim>\<open>pin\<close>,
  \<^verbatim>\<open>authenticate\<close> returns success, sets \<^verbatim>\<open>isAuthenticated\<close> and the last
  activity, and touches nothing else: no storage call is made.
\<close>

theorem authenticate_other_method:
  assumes "authMethod s \<noteq> ''none''" and "authMethod s \<noteq> ''pin''"
  shows "authenticate s = (Inr Success, s\<lparr>isAuthenticated := True, lastActivity := date_now s\<rparr>)"
  using assms by (simp add: authenticate_def try_catch_def updateLastActivity_def)

theorem authenticate_other_method_witness:
  "authMethod (test_auth\<lparr>authMethod := ''biometric''\<rparr>) \<noteq> ''none''
   \<and> authMethod (test_auth\<lparr>authMethod := ''biometric''\<rparr>) \<noteq> ''pin''
   \<and> fst (authenticate (test_auth\<lparr>authMethod := ''biometric''\<rparr>)) = Inr Success
   \<and> isAuthenticated (snd (authenticate (test_auth\<lparr>authMethod := ''biometric''\<rparr>)))
   \<and> lastActivity (snd (authenticate (test_auth\<lparr>authMethod := ''biometric''\<rparr>))) = 1700000000000"
  using authenticate_other_method[of "test_auth\<lparr>authMethod := ''biometric''\<rparr>"]
  by (simp add: test_auth_def new_AuthService_def)

end
